theory Spec2Isabelle
  imports Complex_Main "HOL-Library.Sublist" "HOL-Library.Word"
begin

unbundle bit_operations_syntax

section \<open>Python values, exceptions and the chemistry engine\<close>

text \<open>
  The two source files are \<^verbatim>\<open>gypsum/MyMol.py\<close> (classes \<^verbatim>\<open>MyConformer\<close> and
  \<^verbatim>\<open>MyMol\<close>) and \<^verbatim>\<open>gypsum/Steps/SMILES/DeSaltOrigSmiles.py\<close> (function
  \<^verbatim>\<open>desalter\<close>). Every method is a function that takes the object and returns the
  value together with the updated object; a raised exception is \<open>Inl\<close> of the
  exception's class.
\<close>

datatype error =
  AttributeError | TypeError | ValueError | IndexError | ArgumentError | RuntimeError

text \<open>
  Several attributes hold values of more than one Python type: \<^verbatim>\<open>rdkit_mol\<close> is
  \<^verbatim>\<open>""\<close> (not built yet), \<^verbatim>\<open>None\<close> (invalid) or a molecule; \<^verbatim>\<open>can_smi\<close> is
  \<^verbatim>\<open>""\<close> (not computed), a string, \<^verbatim>\<open>None\<close> or \<^verbatim>\<open>False\<close>. The type \<open>'g\<close> is the
  engine's molecule (atoms and bonds, without coordinates).
\<close>

datatype 'g pyval = Str string | PyNone | PyFalse | MolObj 'g

text \<open>A cache attribute is \<^verbatim>\<open>""\<close> until it is computed.\<close>

datatype 'a cached = NotComputed | Computed 'a

text \<open>
  Python's \<^verbatim>\<open>s in t\<close> on strings is the substring test; on any other right operand of
  the kinds above it raises \<^verbatim>\<open>TypeError\<close>.
\<close>

fun substring :: "string \<Rightarrow> string \<Rightarrow> bool" where
  "substring s [] = (s = [])"
| "substring s (c # t) = (prefix s (c # t) \<or> substring s t)"

definition py_in :: "string \<Rightarrow> 'g pyval \<Rightarrow> error + bool" where
  "py_in s v = (case v of Str t \<Rightarrow> Inr (substring s t) | _ \<Rightarrow> Inl TypeError)"

text \<open>
  The external cheminformatics library, as the functions the source calls. A function
  that can raise returns \<open>None\<close> for the exception; so do the substructure search and
  the two rewriting functions, which the repair loop also calls on the products of
  earlier rewrites, molecules that no sanitizer has seen. The embedding functions take the
  number of the attempt, which stands for the library's random state. \<open>'c\<close> is one set
  of 3D coordinates (an \<^verbatim>\<open>rdkit.Conformer\<close>).
\<close>

record ('g, 'c) engine =
  SanitizeFlags_values :: "int list"
  SANITIZE_CLEANUP :: int
  SANITIZE_ALL :: int
  MolFromSmiles_nosanitize :: "string \<Rightarrow> 'g option"
  SanitizeMol :: "int \<Rightarrow> 'g \<Rightarrow> 'g option"
  MolFromSmiles :: "string \<Rightarrow> 'g option"
  MolToSmiles :: "'g \<Rightarrow> string option"
  AddHs :: "'g \<Rightarrow> 'g"
  RemoveHs :: "'g \<Rightarrow> 'g"
  GetSymmSSSR :: "'g \<Rightarrow> nat list list"
  GetIsAromatic :: "'g \<Rightarrow> nat \<Rightarrow> bool"
  FindMolChiralCenters :: "'g \<Rightarrow> bool \<Rightarrow> (nat \<times> string) list"
  GetBonds :: "'g \<Rightarrow> (nat \<times> real \<times> bool) list"
  HasSubstructMatch :: "'g \<Rightarrow> string \<Rightarrow> bool option"
  ReplaceSubstructs :: "'g \<Rightarrow> string \<Rightarrow> string \<Rightarrow> 'g list option"
  RunReactants :: "string \<Rightarrow> 'g \<Rightarrow> 'g list list option"
  GetMolFrags :: "'g \<Rightarrow> 'g list"
  GetNumHeavyAtoms :: "'g \<Rightarrow> nat"
  GetAtomicNums :: "'g \<Rightarrow> nat list"
  EmbedMolecule_ETKDG :: "nat \<Rightarrow> 'g \<Rightarrow> 'c option"
  EmbedMolecule_default :: "nat \<Rightarrow> 'g \<Rightarrow> 'c option"
  UFF_CalcEnergy :: "'g \<Rightarrow> 'c \<Rightarrow> real"
  UFF_Minimize :: "'g \<Rightarrow> 'c \<Rightarrow> 'c"
  AlignMolConformers :: "'g \<Rightarrow> nat list \<Rightarrow> 'c \<Rightarrow> 'c \<Rightarrow> 'c"
  GetConformerRMS :: "'g \<Rightarrow> 'c \<Rightarrow> 'c \<Rightarrow> real"

section \<open>The data model\<close>

text \<open>
  \<^verbatim>\<open>MyConformer\<close>: \<open>conf_mol\<close> is the attribute \<^verbatim>\<open>mol\<close>, a copy of the molecule with
  its list of coordinate sets, or \<open>None\<close> for the marker \<^verbatim>\<open>False\<close>. The attributes
  \<^verbatim>\<open>minimized\<close>, \<^verbatim>\<open>energy\<close> and \<^verbatim>\<open>ids_hvy_atms\<close> are \<open>None\<close> as long as they are
  not assigned; reading one then raises \<^verbatim>\<open>AttributeError\<close>.
\<close>

record ('g, 'c) MyConformer =
  conf_mol :: "('g \<times> 'c list) option"
  conf_smiles :: "'g pyval"
  minimized :: "bool option"
  energy :: "real option"
  ids_hvy_atms :: "nat list option"

text \<open>
  \<^verbatim>\<open>get_frags_of_orig_smi\<close> returns either the list \<^verbatim>\<open>[self]\<close> or the tuple of the
  engine's fragment molecules.
\<close>

datatype 'g frags = SelfOnly | Frags "'g list"

text \<open>
  \<^verbatim>\<open>MyMol\<close>, with the attributes the methods below read or write (the dictionaries
  \<^verbatim>\<open>enrgy\<close>, \<^verbatim>\<open>minimized_enrgy\<close>, \<^verbatim>\<open>mol_props\<close>, the two index collections and
  \<^verbatim>\<open>stdrd_smiles\<close> are touched by none of them).
\<close>

record ('g, 'c) MyMol =
  rdkit_mol :: "'g pyval"
  can_smi :: "'g pyval"
  can_smi_noh :: "'g pyval"
  orig_smi :: "'g pyval"
  orig_smi_deslt :: "'g pyval"
  name :: string
  conformers :: "('g, 'c) MyConformer list"
  nonaro_ring_atom_idx :: "nat list list cached"
  chiral_cntrs_only_assigned :: "(nat \<times> string) list cached"
  chiral_cntrs_include_unasignd :: "(nat \<times> string) list cached"
  crzy_substruct :: "bool cached"
  contnr_idx :: "int cached"
  frgs :: "'g frags cached"
  genealogy :: "string list"

section \<open>Construction, graph materialisation and the canonical form\<close>

text \<open>Lines 295--299: every sanitize flag but \<^verbatim>\<open>SANITIZE_CLEANUP\<close> and \<^verbatim>\<open>SANITIZE_ALL\<close>.\<close>

definition sanitize_ops :: "('g, 'c) engine \<Rightarrow> int" where
  "sanitize_ops eng =
     foldl (\<lambda>a v. if v \<notin> set [SANITIZE_CLEANUP eng, SANITIZE_ALL eng] then a OR v else a)
       0 (SanitizeFlags_values eng)"

text \<open>
  \<^verbatim>\<open>makeMolFromSmiles\<close> (lines 274--311). \<^verbatim>\<open>Chem.MolFromSmiles\<close> stands outside the
  \<^verbatim>\<open>try\<close>, so an argument that is no string raises; \<^verbatim>\<open>SanitizeMol\<close> stands inside
  it, and it also raises on the \<^verbatim>\<open>None\<close> that a failed parse returns.
\<close>

definition makeMolFromSmiles ::
  "('g, 'c) engine \<Rightarrow> ('g, 'c) MyMol \<Rightarrow> error + ('g pyval \<times> ('g, 'c) MyMol)" where
  "makeMolFromSmiles eng self =
     (if rdkit_mol self \<noteq> Str [] then Inr (rdkit_mol self, self)
      else
        (case orig_smi_deslt self of
           Str s \<Rightarrow>
             (case MolFromSmiles_nosanitize eng s of
                None \<Rightarrow> Inr (PyNone, self\<lparr>rdkit_mol := PyNone\<rparr>)
              | Some m \<Rightarrow>
                  (case SanitizeMol eng (sanitize_ops eng) m of
                     None \<Rightarrow> Inr (PyNone, self\<lparr>rdkit_mol := PyNone\<rparr>)
                   | Some m' \<Rightarrow> Inr (MolObj m', self\<lparr>rdkit_mol := MolObj m'\<rparr>)))
         | _ \<Rightarrow> Inl ArgumentError))"

text \<open>\<^verbatim>\<open>Chem.MolToSmiles\<close> on an attribute value: it raises on anything but a molecule.\<close>

definition MolToSmiles_py :: "('g, 'c) engine \<Rightarrow> 'g pyval \<Rightarrow> string option" where
  "MolToSmiles_py eng v = (case v of MolObj g \<Rightarrow> MolToSmiles eng g | _ \<Rightarrow> None)"

text \<open>
  \<^verbatim>\<open>MyMol.__init__\<close> (lines 179--235). The argument is a string or a molecule. When
  the canonical form of a molecule cannot be computed, the local \<^verbatim>\<open>smiles\<close> still
  holds the molecule, which then lands in \<^verbatim>\<open>orig_smi\<close>. The last statement calls
  \<^verbatim>\<open>makeMolFromSmiles\<close>.
\<close>

definition MyMol_init ::
  "('g, 'c) engine \<Rightarrow> 'g pyval \<Rightarrow> string \<Rightarrow> error + ('g, 'c) MyMol" where
  "MyMol_init eng smiles_arg nm =
     (let (rd, cs, smi) =
        (case smiles_arg of
           Str s \<Rightarrow> (Str [], Str [], Str s)
         | _ \<Rightarrow>
             (case MolToSmiles_py eng smiles_arg of
                Some t \<Rightarrow> (smiles_arg, Str t, Str t)
              | None \<Rightarrow> (smiles_arg, PyFalse, smiles_arg)));
        self = \<lparr> rdkit_mol = rd, can_smi = cs, can_smi_noh = Str [],
                 orig_smi = smi, orig_smi_deslt = smi, name = nm, conformers = [],
                 nonaro_ring_atom_idx = NotComputed,
                 chiral_cntrs_only_assigned = NotComputed,
                 chiral_cntrs_include_unasignd = NotComputed,
                 crzy_substruct = NotComputed, contnr_idx = NotComputed,
                 frgs = NotComputed, genealogy = [] \<rparr>
      in (case makeMolFromSmiles eng self of
            Inl e \<Rightarrow> Inl e
          | Inr (_, self') \<Rightarrow> Inr self'))"

text \<open>
  \<^verbatim>\<open>smiles()\<close> with \<^verbatim>\<open>noh = False\<close> (lines 346--348 and 362--377): the cached value
  when it is not \<^verbatim>\<open>""\<close>, else the engine's canonical form, and \<^verbatim>\<open>None\<close> when the
  engine raises. It never raises itself.
\<close>

definition smiles :: "('g, 'c) engine \<Rightarrow> ('g, 'c) MyMol \<Rightarrow> 'g pyval \<times> ('g, 'c) MyMol" where
  "smiles eng self =
     (if can_smi self \<noteq> Str [] then (can_smi self, self)
      else
        (case MolToSmiles_py eng (rdkit_mol self) of
           None \<Rightarrow> (PyNone, self\<lparr>can_smi := PyNone\<rparr>)
         | Some t \<Rightarrow> (Str t, self\<lparr>can_smi := Str t\<rparr>)))"

text \<open>
  \<^verbatim>\<open>smiles(True)\<close> (lines 350--360): nothing is caught here, so the engine's
  exceptions propagate.
\<close>

definition smiles_noh ::
  "('g, 'c) engine \<Rightarrow> ('g, 'c) MyMol \<Rightarrow> error + ('g pyval \<times> ('g, 'c) MyMol)" where
  "smiles_noh eng self =
     (if can_smi_noh self \<noteq> Str [] then Inr (can_smi_noh self, self)
      else
        (case rdkit_mol self of
           MolObj g \<Rightarrow>
             (case MolToSmiles eng (RemoveHs eng g) of
                None \<Rightarrow> Inl ValueError
              | Some t \<Rightarrow> Inr (Str t, self\<lparr>can_smi_noh := Str t\<rparr>))
         | _ \<Rightarrow> Inl ArgumentError))"

section \<open>Hashing and equality\<close>

text \<open>
  \<^verbatim>\<open>__hash__\<close> and \<^verbatim>\<open>__eq__\<close> (lines 255--262). Python's built-in \<^verbatim>\<open>hash\<close> is a
  parameter; its results are machine integers of 64 bits.
\<close>

type_synonym 'g py_hash = "'g pyval \<Rightarrow> 64 word"

definition MyMol_hash ::
  "'g py_hash \<Rightarrow> ('g, 'c) engine \<Rightarrow> ('g, 'c) MyMol \<Rightarrow> 64 word \<times> ('g, 'c) MyMol" where
  "MyMol_hash hash eng self =
     (let (can_smi', self') = smiles eng self in (hash can_smi', self'))"

definition MyMol_eq ::
  "'g py_hash \<Rightarrow> ('g, 'c) engine \<Rightarrow> ('g, 'c) MyMol \<Rightarrow> ('g, 'c) MyMol \<Rightarrow> bool" where
  "MyMol_eq hash eng self other =
     (fst (MyMol_hash hash eng self) = fst (MyMol_hash hash eng other))"

section \<open>Cached structural queries\<close>

text \<open>
  \<^verbatim>\<open>m_num_nonaro_rngs\<close> (lines 379--408): the rings of the engine's ring set that
  hold an atom which is not aromatic. The engine raises on a \<^verbatim>\<open>rdkit_mol\<close> that is
  neither \<^verbatim>\<open>None\<close> nor a molecule.
\<close>

definition m_num_nonaro_rngs ::
  "('g, 'c) engine \<Rightarrow> ('g, 'c) MyMol \<Rightarrow> error + (nat list list \<times> ('g, 'c) MyMol)" where
  "m_num_nonaro_rngs eng self =
     (case nonaro_ring_atom_idx self of
        Computed v \<Rightarrow> Inr (v, self)
      | NotComputed \<Rightarrow>
          (case rdkit_mol self of
             PyNone \<Rightarrow> Inr ([], self)
           | MolObj g \<Rightarrow>
               (let nonaro_rngs =
                      filter (\<lambda>rng. \<exists>atm_idx \<in> set rng. \<not> GetIsAromatic eng g atm_idx)
                        (GetSymmSSSR eng g)
                in Inr (nonaro_rngs, self\<lparr>nonaro_ring_atom_idx := Computed nonaro_rngs\<rparr>))
           | _ \<Rightarrow> Inl ArgumentError))"

text \<open>\<^verbatim>\<open>chiral_cntrs_w_unasignd\<close> (lines 410--426).\<close>

definition chiral_cntrs_w_unasignd ::
  "('g, 'c) engine \<Rightarrow> ('g, 'c) MyMol \<Rightarrow> error + ((nat \<times> string) list \<times> ('g, 'c) MyMol)" where
  "chiral_cntrs_w_unasignd eng self =
     (case chiral_cntrs_include_unasignd self of
        Computed v \<Rightarrow> Inr (v, self)
      | NotComputed \<Rightarrow>
          (case rdkit_mol self of
             PyNone \<Rightarrow> Inr ([], self)
           | MolObj g \<Rightarrow>
               (let ccs = FindMolChiralCenters eng g True
                in Inr (ccs, self\<lparr>chiral_cntrs_include_unasignd := Computed ccs\<rparr>))
           | _ \<Rightarrow> Inl ArgumentError))"

text \<open>\<^verbatim>\<open>chiral_cntrs_only_asignd\<close> (lines 428--444).\<close>

definition chiral_cntrs_only_asignd ::
  "('g, 'c) engine \<Rightarrow> ('g, 'c) MyMol \<Rightarrow> error + ((nat \<times> string) list \<times> ('g, 'c) MyMol)" where
  "chiral_cntrs_only_asignd eng self =
     (case chiral_cntrs_only_assigned self of
        Computed v \<Rightarrow> Inr (v, self)
      | NotComputed \<Rightarrow>
          (case rdkit_mol self of
             PyNone \<Rightarrow> Inr ([], self)
           | MolObj g \<Rightarrow>
               (let ccs = FindMolChiralCenters eng g False
                in Inr (ccs, self\<lparr>chiral_cntrs_only_assigned := Computed ccs\<rparr>))
           | _ \<Rightarrow> Inl ArgumentError))"

text \<open>
  \<^verbatim>\<open>get_double_bonds_without_stereochemistry\<close> (lines 446--464). A bond is its index,
  its order as a number, and whether its stereo descriptor is \<^verbatim>\<open>STEREONONE\<close>. A string
  or \<^verbatim>\<open>False\<close> has no \<^verbatim>\<open>GetBonds\<close>.
\<close>

definition get_double_bonds_without_stereochemistry ::
  "('g, 'c) engine \<Rightarrow> ('g, 'c) MyMol \<Rightarrow> error + nat list" where
  "get_double_bonds_without_stereochemistry eng self =
     (case rdkit_mol self of
        PyNone \<Rightarrow> Inr []
      | MolObj g \<Rightarrow>
          Inr (map fst (filter (\<lambda>(idx, order, stereonone). order = 2 \<and> stereonone)
                               (GetBonds eng g)))
      | _ \<Rightarrow> Inl AttributeError)"

section \<open>Anomaly detection\<close>

definition prohibited_substructures :: "string list" where
  "prohibited_substructures = [''O(=*)-*'', ''C(O)=N'']"

text \<open>
  The first loop of \<^verbatim>\<open>crzy_substruc\<close> (lines 493--506): the three substring tests for
  each pattern, in the source's order.
\<close>

fun crzy_textual :: "string list \<Rightarrow> ('g, 'c) MyMol \<Rightarrow> error + bool" where
  "crzy_textual [] self = Inr False"
| "crzy_textual (s # ss) self =
     (case py_in s (orig_smi self) of
        Inl e \<Rightarrow> Inl e
      | Inr True \<Rightarrow> Inr True
      | Inr False \<Rightarrow>
          (case py_in s (orig_smi_deslt self) of
             Inl e \<Rightarrow> Inl e
           | Inr True \<Rightarrow> Inr True
           | Inr False \<Rightarrow>
               (case py_in s (can_smi self) of
                  Inl e \<Rightarrow> Inl e
                | Inr True \<Rightarrow> Inr True
                | Inr False \<Rightarrow> crzy_textual ss self)))"

text \<open>
  The second loop (lines 509--515): \<^verbatim>\<open>self.rdkit_mol.HasSubstructMatch\<close>, an
  attribute that only a molecule has; the search itself may raise.
\<close>

fun crzy_graph :: "('g, 'c) engine \<Rightarrow> string list \<Rightarrow> ('g, 'c) MyMol \<Rightarrow> error + bool" where
  "crzy_graph eng [] self = Inr False"
| "crzy_graph eng (s # ss) self =
     (case rdkit_mol self of
        MolObj g \<Rightarrow>
          (case HasSubstructMatch eng g s of
             None \<Rightarrow> Inl RuntimeError
           | Some True \<Rightarrow> Inr True
           | Some False \<Rightarrow> crzy_graph eng ss self)
      | _ \<Rightarrow> Inl AttributeError)"

text \<open>\<^verbatim>\<open>crzy_substruc\<close> (lines 466--520).\<close>

definition crzy_substruc ::
  "('g, 'c) engine \<Rightarrow> ('g, 'c) MyMol \<Rightarrow> error + (bool \<times> ('g, 'c) MyMol)" where
  "crzy_substruc eng self =
     (case crzy_substruct self of
        Computed v \<Rightarrow> Inr (v, self)
      | NotComputed \<Rightarrow>
          (case crzy_textual prohibited_substructures self of
             Inl e \<Rightarrow> Inl e
           | Inr True \<Rightarrow> Inr (True, self\<lparr>crzy_substruct := Computed True\<rparr>)
           | Inr False \<Rightarrow>
               (case crzy_graph eng prohibited_substructures self of
                  Inl e \<Rightarrow> Inl e
                | Inr True \<Rightarrow> Inr (True, self\<lparr>crzy_substruct := Computed True\<rparr>)
                | Inr False \<Rightarrow> Inr (False, self\<lparr>crzy_substruct := Computed False\<rparr>))))"

section \<open>The repair loop\<close>

text \<open>
  One rewrite of \<^verbatim>\<open>fix_common_errors\<close> by a reaction (lines 548--555 and 559--564):
  the test is on \<^verbatim>\<open>self.rdkit_mol\<close>, the rewrite on the local \<^verbatim>\<open>mol\<close>; the first
  product of the first product set replaces \<^verbatim>\<open>mol\<close>. From the second pass on both
  are a product of the pass before (lines 555, 564 and 568), on which the engine may
  raise.
\<close>

definition run_rxn ::
  "('g, 'c) engine \<Rightarrow> string \<Rightarrow> string \<Rightarrow> 'g pyval \<Rightarrow> 'g pyval \<Rightarrow> error + 'g pyval" where
  "run_rxn eng smrts rxn self_mol mol =
     (case self_mol of
        MolObj g0 \<Rightarrow>
          (case HasSubstructMatch eng g0 smrts of
             None \<Rightarrow> Inl RuntimeError
           | Some False \<Rightarrow> Inr mol
           | Some True \<Rightarrow>
               (case mol of
                  MolObj g \<Rightarrow>
                    (case RunReactants eng rxn g of
                       None \<Rightarrow> Inl RuntimeError
                     | Some [] \<Rightarrow> Inr mol
                     | Some ([] # _) \<Rightarrow> Inl IndexError
                     | Some ((p # _) # _) \<Rightarrow> Inr (MolObj p))
                | _ \<Rightarrow> Inl ArgumentError))
      | _ \<Rightarrow> Inl AttributeError)"

text \<open>The carbocation rewrite (lines 540--545).\<close>

definition replace_carbocation ::
  "('g, 'c) engine \<Rightarrow> 'g pyval \<Rightarrow> 'g pyval \<Rightarrow> error + 'g pyval" where
  "replace_carbocation eng orig_can_smi mol =
     (case py_in ''[C+]'' orig_can_smi of
        Inl e \<Rightarrow> Inl e
      | Inr False \<Rightarrow> Inr mol
      | Inr True \<Rightarrow>
          (case mol of
             MolObj g \<Rightarrow>
               (case ReplaceSubstructs eng g ''[$([C+](=*)(-*)-*)]'' ''C'' of
                  None \<Rightarrow> Inl RuntimeError
                | Some [] \<Rightarrow> Inl IndexError
                | Some (p # _) \<Rightarrow> Inr (MolObj p))
           | _ \<Rightarrow> Inl ArgumentError))"

text \<open>
  The rewrites of one pass (lines 537--569), for \<^verbatim>\<open>mol\<close> that is not \<^verbatim>\<open>None\<close>: the
  new value of \<^verbatim>\<open>mol\<close>.
\<close>

definition rewrite_pass ::
  "('g, 'c) engine \<Rightarrow> 'g pyval \<Rightarrow> 'g pyval \<Rightarrow> 'g pyval \<Rightarrow> error + 'g pyval" where
  "rewrite_pass eng orig_can_smi self_mol mol =
     (case replace_carbocation eng orig_can_smi mol of
        Inl e \<Rightarrow> Inl e
      | Inr mol1 \<Rightarrow>
          (case run_rxn eng ''C([O-])O''
                  ''[CH1:1](-[OH1:2])-[OX1-:3]>>[C:1](=[O:2])[O-:3]'' self_mol mol1 of
             Inl e \<Rightarrow> Inl e
           | Inr mol2 \<Rightarrow> run_rxn eng ''[NX3+]'' ''[NX3+:1]>>[N:1]'' self_mol mol2))"

text \<open>
  The body of the \<^verbatim>\<open>while\<close> loop (lines 535--573) followed by the loop's test: the
  result says whether the loop goes on, and gives the local \<^verbatim>\<open>mol\<close> and the object.
  With \<^verbatim>\<open>mol\<close> being \<^verbatim>\<open>None\<close> the function returns from inside the body.
\<close>

definition fix_pass ::
  "('g, 'c) engine \<Rightarrow> 'g pyval \<Rightarrow> ('g, 'c) MyMol \<Rightarrow>
     error + (bool \<times> 'g pyval \<times> ('g, 'c) MyMol)" where
  "fix_pass eng mol self =
     (let (orig_can_smi, self1) = smiles eng self in
      if mol \<noteq> PyNone then
        (case rewrite_pass eng orig_can_smi (rdkit_mol self1) mol of
           Inl e \<Rightarrow> Inl e
         | Inr mol' \<Rightarrow>
             (let self2 = self1\<lparr>rdkit_mol := mol', can_smi := Str []\<rparr>;
                  (new_can_smi, self3) = smiles eng self2
              in Inr (orig_can_smi \<noteq> new_can_smi, mol', self3)))
      else Inr (False, mol, self1))"

text \<open>
  The \<^verbatim>\<open>while\<close> loop (lines 534--573). The first test compares \<^verbatim>\<open>True\<close> with
  \<^verbatim>\<open>False\<close>, so the body runs at least once. Nothing bounds the number of passes, so
  the loop is a partial function: \<open>None\<close> is a run that never returns. Both
  \<^verbatim>\<open>return None\<close> and falling off the end give \<^verbatim>\<open>None\<close> to the caller; the result
  here is the object as the call leaves it.
\<close>

partial_function (option) fix_loop ::
  "('g, 'c) engine \<Rightarrow> 'g pyval \<Rightarrow> ('g, 'c) MyMol \<Rightarrow> (error + ('g, 'c) MyMol) option" where
  "fix_loop eng mol self =
     (case fix_pass eng mol self of
        Inl e \<Rightarrow> Some (Inl e)
      | Inr (again, mol', self') \<Rightarrow>
          if again then fix_loop eng mol' self' else Some (Inr self'))"

text \<open>The loop cut off after \<open>n\<close> passes: \<open>None\<close> when it has not returned by then.\<close>

fun fix_passes ::
  "nat \<Rightarrow> ('g, 'c) engine \<Rightarrow> 'g pyval \<Rightarrow> ('g, 'c) MyMol \<Rightarrow> (error + ('g, 'c) MyMol) option" where
  "fix_passes 0 eng mol self = None"
| "fix_passes (Suc n) eng mol self =
     (case fix_pass eng mol self of
        Inl e \<Rightarrow> Some (Inl e)
      | Inr (again, mol', self') \<Rightarrow>
          if again then fix_passes n eng mol' self' else Some (Inr self'))"

text \<open>\<^verbatim>\<open>fix_common_errors\<close> (lines 522--573).\<close>

definition fix_common_errors ::
  "('g, 'c) engine \<Rightarrow> ('g, 'c) MyMol \<Rightarrow> (error + ('g, 'c) MyMol) option" where
  "fix_common_errors eng self =
     (let mol = rdkit_mol self;
          (tt, self0) = smiles eng self
      in fix_loop eng mol self0)"

section \<open>Fragments and the fragment selector\<close>

text \<open>
  \<^verbatim>\<open>get_frags_of_orig_smi\<close> (lines 575--593). \<open>SelfOnly\<close> is the list \<^verbatim>\<open>[self]\<close>,
  which the object also stores in its own attribute \<^verbatim>\<open>frgs\<close>.
\<close>

definition get_frags_of_orig_smi ::
  "('g, 'c) engine \<Rightarrow> ('g, 'c) MyMol \<Rightarrow> error + ('g frags \<times> ('g, 'c) MyMol)" where
  "get_frags_of_orig_smi eng self =
     (case frgs self of
        Computed v \<Rightarrow> Inr (v, self)
      | NotComputed \<Rightarrow>
          (case py_in ''.'' (orig_smi self) of
             Inl e \<Rightarrow> Inl e
           | Inr False \<Rightarrow> Inr (SelfOnly, self\<lparr>frgs := Computed SelfOnly\<rparr>)
           | Inr True \<Rightarrow>
               (case rdkit_mol self of
                  MolObj g \<Rightarrow>
                    (let frags = Frags (GetMolFrags eng g)
                     in Inr (frags, self\<lparr>frgs := Computed frags\<rparr>))
                | _ \<Rightarrow> Inl ArgumentError)))"

text \<open>\<^verbatim>\<open>inherit_contnr_props\<close> (lines 595--610).\<close>

definition inherit_contnr_props ::
  "('g, 'c) MyMol \<Rightarrow> ('g, 'c) MyMol \<Rightarrow> ('g, 'c) MyMol" where
  "inherit_contnr_props self other =
     self\<lparr>contnr_idx := contnr_idx other, orig_smi := orig_smi other,
          orig_smi_deslt := orig_smi_deslt other, name := name other\<rparr>"

text \<open>
  Modelled from the spec: the class \<^verbatim>\<open>MolContainer\<close> of the argument of
  \<^verbatim>\<open>desalter\<close> is not among the source files. The record has the attributes that
  \<^verbatim>\<open>desalter\<close> reads, and its \<^verbatim>\<open>get_frags_of_orig_smi\<close> is the one of the molecule
  it holds (the spec's selector ``requests \<^verbatim>\<open>fragmentsOfOriginal()\<close> from
  \<^verbatim>\<open>record\<close>'').
\<close>

record ('g, 'c) MolContainer =
  contnr_orig_smi :: string
  contnr_name :: string
  contnr_contnr_idx :: "int cached"
  mol_orig_frm_inp_smi :: "('g, 'c) MyMol"

definition contnr_get_frags_of_orig_smi ::
  "('g, 'c) engine \<Rightarrow> ('g, 'c) MolContainer \<Rightarrow> error + ('g frags \<times> ('g, 'c) MolContainer)" where
  "contnr_get_frags_of_orig_smi eng contnr =
     (case get_frags_of_orig_smi eng (mol_orig_frm_inp_smi contnr) of
        Inl e \<Rightarrow> Inl e
      | Inr (frags, m) \<Rightarrow> Inr (frags, contnr\<lparr>mol_orig_frm_inp_smi := m\<rparr>))"

text \<open>\<^verbatim>\<open>len(frags)\<close>, and \<^verbatim>\<open>GetNumHeavyAtoms\<close> of each element (a \<^verbatim>\<open>MyMol\<close> has none).\<close>

definition len_frags :: "'g frags \<Rightarrow> nat" where
  "len_frags fr = (case fr of SelfOnly \<Rightarrow> 1 | Frags fs \<Rightarrow> length fs)"

text \<open>
  Lines 76--85 of \<^verbatim>\<open>desalter\<close>: the dictionary from heavy-atom count to fragment,
  written in the order of the fragments, and the fragment stored under the largest
  count. \<^verbatim>\<open>max\<close> of an empty list raises \<^verbatim>\<open>ValueError\<close>.
\<close>

definition num_heavy_atoms_to_frag :: "('g, 'c) engine \<Rightarrow> 'g list \<Rightarrow> (nat \<rightharpoonup> 'g)" where
  "num_heavy_atoms_to_frag eng fs =
     foldl (\<lambda>d f. d(GetNumHeavyAtoms eng f \<mapsto> f)) Map.empty fs"

definition biggest_frag :: "('g, 'c) engine \<Rightarrow> 'g list \<Rightarrow> error + 'g" where
  "biggest_frag eng fs =
     (let num_heavy_atoms = map (GetNumHeavyAtoms eng) fs in
      if num_heavy_atoms = [] then Inl ValueError
      else
        (case num_heavy_atoms_to_frag eng fs (Max (set num_heavy_atoms)) of
           None \<Rightarrow> Inl ValueError
         | Some f \<Rightarrow> Inr f))"

text \<open>
  Lines 88--91: the new object built from the biggest fragment, with the container's
  index and name and the genealogy of the container's molecule.
\<close>

definition desalter_new_mol ::
  "('g, 'c) engine \<Rightarrow> ('g, 'c) MolContainer \<Rightarrow> 'g \<Rightarrow> error + ('g, 'c) MyMol" where
  "desalter_new_mol eng contnr f =
     (case MyMol_init eng (MolObj f) [] of
        Inl e \<Rightarrow> Inl e
      | Inr new_mol \<Rightarrow>
          Inr (new_mol\<lparr>contnr_idx := contnr_contnr_idx contnr,
                       name := contnr_name contnr,
                       genealogy := genealogy (mol_orig_frm_inp_smi contnr)\<rparr>))"

text \<open>
  \<^verbatim>\<open>desalter\<close> (lines 53--93). Line 92 calls \<^verbatim>\<open>new_mol.make_mol_frm_smiles_sanitze()\<close>;
  the class \<^verbatim>\<open>MyMol\<close> defines \<^verbatim>\<open>makeMolFromSmiles\<close> and no method or attribute of
  the called name, so the call raises \<^verbatim>\<open>AttributeError\<close> and line 93 is not reached.
\<close>

definition desalter ::
  "('g, 'c) engine \<Rightarrow> ('g, 'c) MolContainer \<Rightarrow> error + ('g, 'c) MyMol" where
  "desalter eng contnr =
     (case contnr_get_frags_of_orig_smi eng contnr of
        Inl e \<Rightarrow> Inl e
      | Inr (frags, contnr') \<Rightarrow>
          (if len_frags frags = 1 then Inr (mol_orig_frm_inp_smi contnr')
           else
             (case frags of
                SelfOnly \<Rightarrow> Inl AttributeError
              | Frags fs \<Rightarrow>
                  (case biggest_frag eng fs of
                     Inl e \<Rightarrow> Inl e
                   | Inr f \<Rightarrow>
                       (case desalter_new_mol eng contnr' f of
                          Inl e \<Rightarrow> Inl e
                        | Inr new_mol \<Rightarrow> Inl AttributeError)))))"

section \<open>Conformers\<close>

text \<open>
  Lines 72--73: the indices of the atoms whose atomic number is not 1.
\<close>

definition heavy_atom_ids :: "('g, 'c) engine \<Rightarrow> 'g \<Rightarrow> nat list" where
  "heavy_atom_ids eng g =
     filter (\<lambda>i. GetAtomicNums eng g ! i \<noteq> 1) [0..<length (GetAtomicNums eng g)]"

text \<open>
  \<^verbatim>\<open>MyConformer.__init__\<close> (lines 26--73). The call \<^verbatim>\<open>mol.smiles()\<close> may fill the
  cache of the molecule, so the molecule is returned too. \<open>k\<close> is the number of the
  embedding attempt. When both embeddings leave the copy without coordinates,
  \<^verbatim>\<open>self.mol\<close> becomes \<^verbatim>\<open>False\<close> and the block of line 68 is skipped.
\<close>

definition MyConformer_init ::
  "('g, 'c) engine \<Rightarrow> ('g, 'c) MyMol \<Rightarrow> 'c option \<Rightarrow> nat \<Rightarrow>
     error + (('g, 'c) MyConformer \<times> ('g, 'c) MyMol)" where
  "MyConformer_init eng mol conformer k =
     (case rdkit_mol mol of
        MolObj g \<Rightarrow>
          (let (smi, mol') = smiles eng mol;
               confs =
                 (case conformer of
                    None \<Rightarrow>
                      (case EmbedMolecule_ETKDG eng k g of
                         Some c \<Rightarrow> [c]
                       | None \<Rightarrow>
                           (case EmbedMolecule_default eng k g of
                              Some c \<Rightarrow> [c]
                            | None \<Rightarrow> []))
                  | Some c \<Rightarrow> [c])
           in (case confs of
                 [] \<Rightarrow>
                   Inr (\<lparr>conf_mol = None, conf_smiles = smi, minimized = None,
                         energy = None, ids_hvy_atms = None\<rparr>, mol')
               | c # _ \<Rightarrow>
                   Inr (\<lparr>conf_mol = Some (g, confs), conf_smiles = smi,
                         minimized = Some False,
                         energy = Some (UFF_CalcEnergy eng g c),
                         ids_hvy_atms = Some (heavy_atom_ids eng g)\<rparr>, mol')))
      | _ \<Rightarrow> Inl AttributeError)"

text \<open>
  \<^verbatim>\<open>conformer()\<close> (lines 75--91), the getter and the setter. \<^verbatim>\<open>False\<close> has no
  \<^verbatim>\<open>GetConformers\<close>, and an empty list has no element 0.
\<close>

definition conformer_get :: "('g, 'c) MyConformer \<Rightarrow> error + 'c" where
  "conformer_get self =
     (case conf_mol self of
        None \<Rightarrow> Inl AttributeError
      | Some (g, []) \<Rightarrow> Inl IndexError
      | Some (g, c # _) \<Rightarrow> Inr c)"

definition conformer_set :: "('g, 'c) MyConformer \<Rightarrow> 'c \<Rightarrow> error + ('g, 'c) MyConformer" where
  "conformer_set self conf =
     (case conf_mol self of
        None \<Rightarrow> Inl AttributeError
      | Some (g, _) \<Rightarrow> Inr (self\<lparr>conf_mol := Some (g, [conf])\<rparr>))"

text \<open>
  \<^verbatim>\<open>minimize\<close> (lines 93--104). The force field works on the first set of
  coordinates of \<^verbatim>\<open>self.mol\<close>.
\<close>

definition minimize :: "('g, 'c) engine \<Rightarrow> ('g, 'c) MyConformer \<Rightarrow> error + ('g, 'c) MyConformer" where
  "minimize eng self =
     (case minimized self of
        None \<Rightarrow> Inl AttributeError
      | Some True \<Rightarrow> Inr self
      | Some False \<Rightarrow>
          (case conf_mol self of
             None \<Rightarrow> Inl ArgumentError
           | Some (g, []) \<Rightarrow> Inl ValueError
           | Some (g, c # cs) \<Rightarrow>
               (let c' = UFF_Minimize eng g c
                in Inr (self\<lparr>conf_mol := Some (g, c' # cs),
                             energy := Some (UFF_CalcEnergy eng g c'),
                             minimized := Some True\<rparr>))))"

text \<open>
  \<^verbatim>\<open>align_to_me\<close> (lines 106--130). The coordinates of the other conformer are added
  to \<^verbatim>\<open>self.mol\<close>, aligned on the heavy atoms, written back to the other conformer
  and removed from \<^verbatim>\<open>self.mol\<close> again. The engine aligns onto the first set of
  coordinates of the molecule, which it does not move, so \<^verbatim>\<open>self\<close> is as before and the
  result is the other conformer. With no coordinates in \<^verbatim>\<open>self.mol\<close> the added set is
  the first one itself.
\<close>

definition align_to_me ::
  "('g, 'c) engine \<Rightarrow> ('g, 'c) MyConformer \<Rightarrow> ('g, 'c) MyConformer \<Rightarrow>
     error + ('g, 'c) MyConformer" where
  "align_to_me eng self other_conf =
     (case conf_mol self of
        None \<Rightarrow> Inl AttributeError
      | Some (g, confs) \<Rightarrow>
          (case conformer_get other_conf of
             Inl e \<Rightarrow> Inl e
           | Inr oc \<Rightarrow>
               (case ids_hvy_atms self of
                  None \<Rightarrow> Inl AttributeError
                | Some ids \<Rightarrow>
                    (let last_conf =
                           (case confs of
                              [] \<Rightarrow> oc
                            | c0 # _ \<Rightarrow> AlignMolConformers eng g ids c0 oc)
                     in conformer_set other_conf last_conf))))"

text \<open>
  \<^verbatim>\<open>rmsd_to_me\<close> (lines 143--171): a fresh molecule from the stored canonical form,
  with hydrogens added, receives both sets of coordinates; the RMS is taken after the
  hydrogens are removed, without a further alignment.
\<close>

definition rmsd_to_me ::
  "('g, 'c) engine \<Rightarrow> ('g, 'c) MyConformer \<Rightarrow> ('g, 'c) MyConformer \<Rightarrow> error + real" where
  "rmsd_to_me eng self other_conf =
     (case conf_smiles self of
        Str s \<Rightarrow>
          (case MolFromSmiles eng s of
             None \<Rightarrow> Inl ArgumentError
           | Some amol \<Rightarrow>
               (case conformer_get self of
                  Inl e \<Rightarrow> Inl e
                | Inr first_conf \<Rightarrow>
                    (case conformer_get other_conf of
                       Inl e \<Rightarrow> Inl e
                     | Inr last_conf \<Rightarrow>
                         Inr (GetConformerRMS eng (RemoveHs eng (AddHs eng amol))
                                first_conf last_conf))))
      | _ \<Rightarrow> Inl ArgumentError)"

section \<open>Conformer set management\<close>

text \<open>
  Lines 723--730 of \<^verbatim>\<open>eliminate_structurally_similar_conformers\<close>: the second
  conformer aligned onto the first, and the RMS of the pair then.
\<close>

definition align_and_rmsd ::
  "('g, 'c) engine \<Rightarrow> ('g, 'c) MyConformer \<Rightarrow> ('g, 'c) MyConformer \<Rightarrow>
     error + (('g, 'c) MyConformer \<times> real)" where
  "align_and_rmsd eng c1 c2 =
     (case align_to_me eng c1 c2 of
        Inl e \<Rightarrow> Inl e
      | Inr c2' \<Rightarrow>
          (case rmsd_to_me eng c1 c2' of
             Inl e \<Rightarrow> Inl e
           | Inr rmsd \<Rightarrow> Inr (c2', rmsd)))"

text \<open>
  The inner loop (lines 720--735) for one \<open>i1\<close>, over the indices \<open>i2\<close> that are left;
  an entry \<open>None\<close> of the list is a conformer replaced by \<^verbatim>\<open>None\<close>.
\<close>

fun elim_inner ::
  "('g, 'c) engine \<Rightarrow> real \<Rightarrow> nat \<Rightarrow> nat list \<Rightarrow> ('g, 'c) MyConformer option list \<Rightarrow>
     error + ('g, 'c) MyConformer option list" where
  "elim_inner eng rmsd_cutoff i1 [] confs = Inr confs"
| "elim_inner eng rmsd_cutoff i1 (i2 # is) confs =
     (if i2 < length confs \<and> i1 < length confs then
        (case confs ! i2 of
           None \<Rightarrow> elim_inner eng rmsd_cutoff i1 is confs
         | Some c2 \<Rightarrow>
             (case confs ! i1 of
                None \<Rightarrow> Inl AttributeError
              | Some c1 \<Rightarrow>
                  (case align_and_rmsd eng c1 c2 of
                     Inl e \<Rightarrow> Inl e
                   | Inr (c2', rmsd) \<Rightarrow>
                       elim_inner eng rmsd_cutoff i1 is
                         (confs[i2 := (if rmsd \<le> rmsd_cutoff then None else Some c2')]))))
      else Inl IndexError)"

text \<open>The outer loop (lines 718--719), over the indices \<open>i1\<close> that are left.\<close>

fun elim_outer ::
  "('g, 'c) engine \<Rightarrow> real \<Rightarrow> nat list \<Rightarrow> ('g, 'c) MyConformer option list \<Rightarrow>
     error + ('g, 'c) MyConformer option list" where
  "elim_outer eng rmsd_cutoff [] confs = Inr confs"
| "elim_outer eng rmsd_cutoff (i1 # is) confs =
     (if i1 < length confs then
        (case confs ! i1 of
           None \<Rightarrow> elim_outer eng rmsd_cutoff is confs
         | Some _ \<Rightarrow>
             (case elim_inner eng rmsd_cutoff i1 [i1 + 1..<length confs] confs of
                Inl e \<Rightarrow> Inl e
              | Inr confs' \<Rightarrow> elim_outer eng rmsd_cutoff is confs'))
      else Inl IndexError)"

text \<open>Lines 738--739: every \<^verbatim>\<open>None\<close> is removed, the rest keeps its order.\<close>

definition remove_nones :: "'a option list \<Rightarrow> 'a list" where
  "remove_nones xs = map the (filter (\<lambda>x. x \<noteq> None) xs)"

text \<open>\<^verbatim>\<open>eliminate_structurally_similar_conformers\<close> (lines 716--741).\<close>

definition eliminate_structurally_similar_conformers ::
  "('g, 'c) engine \<Rightarrow> real \<Rightarrow> ('g, 'c) MyMol \<Rightarrow> error + ('g, 'c) MyMol" where
  "eliminate_structurally_similar_conformers eng rmsd_cutoff self =
     (case elim_outer eng rmsd_cutoff [0..<length (conformers self) - 1]
             (map Some (conformers self)) of
        Inl e \<Rightarrow> Inl e
      | Inr confs \<Rightarrow> Inr (self\<lparr>conformers := remove_nones confs\<rparr>))"

text \<open>
  The first loop of \<^verbatim>\<open>add_conformers\<close> (lines 701--704): \<open>n\<close> more constructions,
  the next one being attempt \<open>k\<close>; a conformer is appended only when its \<^verbatim>\<open>mol\<close> is
  not \<^verbatim>\<open>False\<close>.
\<close>

fun new_confs ::
  "('g, 'c) engine \<Rightarrow> nat \<Rightarrow> nat \<Rightarrow> ('g, 'c) MyMol \<Rightarrow> error + ('g, 'c) MyMol" where
  "new_confs eng k 0 self = Inr self"
| "new_confs eng k (Suc n) self =
     (case MyConformer_init eng self None k of
        Inl e \<Rightarrow> Inl e
      | Inr (new_conf, self') \<Rightarrow>
          new_confs eng (Suc k) n
            (if conf_mol new_conf \<noteq> None
             then self'\<lparr>conformers := conformers self' @ [new_conf]\<rparr>
             else self'))"

text \<open>The second loop (lines 707--709): each conformer minimized, in order.\<close>

fun minimize_all ::
  "('g, 'c) engine \<Rightarrow> ('g, 'c) MyConformer list \<Rightarrow> error + ('g, 'c) MyConformer list" where
  "minimize_all eng [] = Inr []"
| "minimize_all eng (conf # confs) =
     (case minimize eng conf of
        Inl e \<Rightarrow> Inl e
      | Inr conf' \<Rightarrow>
          (case minimize_all eng confs of
             Inl e \<Rightarrow> Inl e
           | Inr confs' \<Rightarrow> Inr (conf' # confs')))"

text \<open>
  Line 712: the stable sort on the attribute \<^verbatim>\<open>energy\<close>, which every element must
  have. Energies are real numbers here.
\<close>

definition sort_by_energy ::
  "('g, 'c) MyConformer list \<Rightarrow> error + ('g, 'c) MyConformer list" where
  "sort_by_energy confs =
     (if \<forall>c \<in> set confs. energy c \<noteq> None
      then Inr (sort_key (\<lambda>c. the (energy c)) confs)
      else Inl AttributeError)"

text \<open>\<^verbatim>\<open>add_conformers\<close> (lines 685--714).\<close>

definition add_conformers ::
  "('g, 'c) engine \<Rightarrow> int \<Rightarrow> real \<Rightarrow> bool \<Rightarrow> ('g, 'c) MyMol \<Rightarrow> error + ('g, 'c) MyMol" where
  "add_conformers eng num rmsd_cutoff minimize_flag self =
     (let num_new_confs = nat (max 0 (num - int (length (conformers self)))) in
      case new_confs eng 0 num_new_confs self of
        Inl e \<Rightarrow> Inl e
      | Inr self1 \<Rightarrow>
          (case (if minimize_flag then minimize_all eng (conformers self1)
                 else Inr (conformers self1)) of
             Inl e \<Rightarrow> Inl e
           | Inr confs2 \<Rightarrow>
               (case sort_by_energy confs2 of
                  Inl e \<Rightarrow> Inl e
                | Inr confs3 \<Rightarrow>
                    eliminate_structurally_similar_conformers eng rmsd_cutoff
                      (self1\<lparr>conformers := confs3\<rparr>))))"

text \<open>
  \<^verbatim>\<open>makeMol3D\<close> (lines 313--329): hydrogens are added to a molecule only.
\<close>

definition makeMol3D :: "('g, 'c) engine \<Rightarrow> ('g, 'c) MyMol \<Rightarrow> error + ('g, 'c) MyMol" where
  "makeMol3D eng self =
     (if length (conformers self) > 0 then Inr self
      else
        (case rdkit_mol self of
           MolObj g \<Rightarrow> add_conformers eng 1 (10 ^ 60) False (self\<lparr>rdkit_mol := MolObj (AddHs eng g)\<rparr>)
         | _ \<Rightarrow> Inl ArgumentError))"

section \<open>Notions used in the statements\<close>

text \<open>
  The heavy-atom RMSD of a pair of conformers as the deduplication measures it: the
  second aligned onto the first, then the RMS of the two.
\<close>

definition pairwise_rmsd ::
  "('g, 'c) engine \<Rightarrow> ('g, 'c) MyConformer \<Rightarrow> ('g, 'c) MyConformer \<Rightarrow> error + real" where
  "pairwise_rmsd eng c1 c2 =
     (case align_and_rmsd eng c1 c2 of Inl e \<Rightarrow> Inl e | Inr (c2', rmsd) \<Rightarrow> Inr rmsd)"


text \<open>What a conformer holds besides its coordinates.\<close>

definition conf_info ::
  "('g, 'c) MyConformer \<Rightarrow> 'g option \<times> 'g pyval \<times> bool option \<times> real option \<times> nat list option" where
  "conf_info c =
     (map_option fst (conf_mol c), conf_smiles c, minimized c, energy c, ids_hvy_atms c)"

text \<open>A conformer whose attributes are all assigned.\<close>

definition usable :: "('g, 'c) MyConformer \<Rightarrow> bool" where
  "usable c = (conf_mol c \<noteq> None \<and> minimized c \<noteq> None \<and> energy c \<noteq> None
               \<and> ids_hvy_atms c \<noteq> None)"

text \<open>
  Two properties for the repair loop. Of the engine: when the rewrites of a pass leave
  the canonical form as it is, they leave the molecule as it is. Of a record: a cached
  canonical form is the one of the record's graph.
\<close>

definition stable_rewrite :: "('g, 'c) engine \<Rightarrow> bool" where
  "stable_rewrite eng =
     (\<forall>s g mol'. MolToSmiles eng g = Some s
        \<and> rewrite_pass eng (Str s) (MolObj g) (MolObj g) = Inr mol'
        \<and> MolToSmiles_py eng mol' = Some s \<longrightarrow> mol' = MolObj g)"

definition cache_consistent :: "('g, 'c) engine \<Rightarrow> ('g, 'c) MyMol \<Rightarrow> bool" where
  "cache_consistent eng self =
     (\<forall>s. can_smi self = Str s \<and> s \<noteq> [] \<longrightarrow> MolToSmiles_py eng (rdkit_mol self) = Some s)"

section \<open>Auxiliary predicates of the proofs\<close>



definition info_kept ::
  "('g, 'c) MyConformer option \<Rightarrow> ('g, 'c) MyConformer option \<Rightarrow> bool" where
  "info_kept x' x =
     (x' = None \<or> (\<exists>b b'. x = Some b \<and> x' = Some b' \<and> conf_info b' = conf_info b))"


definition fixed_after ::
  "('g, 'c) engine \<Rightarrow> 'g pyval \<Rightarrow> ('g, 'c) MyMol \<Rightarrow> error + ('g, 'c) MyMol \<Rightarrow> bool" where
  "fixed_after eng mol self r =
     (stable_rewrite eng \<longrightarrow> mol = rdkit_mol self \<longrightarrow> cache_consistent eng self \<longrightarrow>
       (\<forall>self'. r = Inr self' \<longrightarrow> fix_common_errors eng self' = Some (Inr self')))"

section \<open>A small engine for evaluating the model\<close>

text \<open>
  To run the functions above on concrete input, a stand-in for the library: a molecule
  is its notation, fragments are separated by dots, a heavy atom is a capital letter
  other than H, and a set of coordinates is a shape and a position. It refuses the
  notations for which the comments of the source report a failure: the molecule of
  lines 207 and 368 has no canonical form, the one of line 60 cannot be embedded.
  A carbon with five neighbours does not pass the sanitizer.
\<close>

fun split_dots :: "string \<Rightarrow> string \<Rightarrow> string list" where
  "split_dots acc [] = [rev acc]"
| "split_dots acc (c # cs) =
     (if c = CHR ''.'' then rev acc # split_dots [] cs else split_dots (c # acc) cs)"

fun neutralise :: "string \<Rightarrow> string" where
  "neutralise [] = []"
| "neutralise (c # cs) =
     (if prefix ''[N+]'' (c # cs) then CHR ''N'' # drop 3 cs else c # neutralise cs)"

definition toy_shape :: "nat \<Rightarrow> int" where
  "toy_shape k = (7 * int k + 3) mod 5"

definition toy_engine :: "(string, int \<times> int) engine" where
  "toy_engine =
     \<lparr> SanitizeFlags_values = [0, 1, 2, 4, 8, 268435455],
       SANITIZE_CLEANUP = 1,
       SANITIZE_ALL = 268435455,
       MolFromSmiles_nosanitize = (\<lambda>s. if CHR ''?'' \<in> set s then None else Some s),
       SanitizeMol = (\<lambda>ops g. if g = ''C(C)(C)(C)(C)C'' then None else Some g),
       MolFromSmiles =
         (\<lambda>s. if CHR ''?'' \<in> set s \<or> s = ''C(C)(C)(C)(C)C'' then None else Some s),
       MolToSmiles =
         (\<lambda>g. if g = ''CC(=O)NC1=CC(=C=[N+]([O-])O)C=C1O'' then None else Some g),
       AddHs = (\<lambda>g. g),
       RemoveHs = (\<lambda>g. g),
       GetSymmSSSR = (\<lambda>g. []),
       GetIsAromatic = (\<lambda>g i. False),
       FindMolChiralCenters = (\<lambda>g b. []),
       GetBonds = (\<lambda>g. []),
       HasSubstructMatch = (\<lambda>g p. Some (p = ''[NX3+]'' \<and> substring ''[N+]'' g)),
       ReplaceSubstructs = (\<lambda>g p r. Some [g]),
       RunReactants =
         (\<lambda>rxn g. if rxn = ''[NX3+:1]>>[N:1]'' \<and> substring ''[N+]'' g
                  then Some [[neutralise g]] else Some []),
       GetMolFrags = (\<lambda>g. split_dots [] g),
       GetNumHeavyAtoms =
         (\<lambda>g. length (filter (\<lambda>c. c \<in> set ''ABCDEFGIJKLMNOPQRSTUVWXYZ'') g)),
       GetAtomicNums =
         (\<lambda>g. map (\<lambda>c. if c = CHR ''H'' then 1 else 6)
                 (filter (\<lambda>c. c \<in> set ''ABCDEFGHIJKLMNOPQRSTUVWXYZ'') g)),
       EmbedMolecule_ETKDG =
         (\<lambda>k g. if g = ''O=c1cccc2[C@H]3C[NH2+]C[C@@H](C3)Cn21'' then None
                else Some (toy_shape k, int k)),
       EmbedMolecule_default =
         (\<lambda>k g. if g = ''O=c1cccc2[C@H]3C[NH2+]C[C@@H](C3)Cn21'' then None
                else Some (toy_shape k, int k)),
       UFF_CalcEnergy = (\<lambda>g c. real_of_int (fst c)),
       UFF_Minimize = (\<lambda>g c. (fst c div 2, snd c)),
       AlignMolConformers = (\<lambda>g ids c0 c. (fst c, snd c0)),
       GetConformerRMS =
         (\<lambda>g c1 c2. real_of_int (\<bar>fst c1 - fst c2\<bar> + \<bar>snd c1 - snd c2\<bar>)) \<rparr>"

text \<open>A container as the pipeline builds it: the molecule made from the input notation.\<close>

definition toy_container :: "string \<Rightarrow> string \<Rightarrow> error + (string, int \<times> int) MolContainer" where
  "toy_container s nm =
     (case MyMol_init toy_engine (Str s) nm of
        Inl e \<Rightarrow> Inl e
      | Inr m \<Rightarrow>
          Inr \<lparr>contnr_orig_smi = s, contnr_name = nm, contnr_contnr_idx = Computed 0,
               mol_orig_frm_inp_smi = m\<rparr>)"

text \<open>Objects of the small engine: a molecule made from a notation, and a desalted one.\<close>

definition toy_mol :: "string \<Rightarrow> string \<Rightarrow> (string, int \<times> int) MyMol" where
  "toy_mol s nm = projr (MyMol_init toy_engine (Str s) nm)"

definition toy_desalt :: "string \<Rightarrow> string \<Rightarrow> error + (string, int \<times> int) MyMol" where
  "toy_desalt s nm =
     (case toy_container s nm of Inl e \<Rightarrow> Inl e | Inr contnr \<Rightarrow> desalter toy_engine contnr)"

text \<open>A hash for evaluation: the length of a string, and 0 for \<^verbatim>\<open>None\<close> and \<^verbatim>\<open>False\<close>.\<close>

definition toy_hash :: "string py_hash" where
  "toy_hash v = (case v of Str s \<Rightarrow> of_nat (length s) | _ \<Rightarrow> 0)"

text \<open>A conformer of ethanol, not minimized, with shape 3 at position 0.\<close>

definition toy_conf :: "(string, int \<times> int) MyConformer" where
  "toy_conf = \<lparr>conf_mol = Some (''CCO'', [(3, 0)]), conf_smiles = Str ''CCO'',
               minimized = Some False, energy = Some 3, ids_hvy_atms = Some [0, 1, 2]\<rparr>"


text \<open>The molecule of the source's comment at line 207, which has no canonical form.\<close>

definition toy_beast :: string where
  "toy_beast = ''CC(=O)NC1=CC(=C=[N+]([O-])O)C=C1O''"

text \<open>A charged amine, and the record the repair loop makes of it.\<close>

definition toy_amine :: "(string, int \<times> int) MyMol" where
  "toy_amine = toy_mol ''C[N+](C)C'' []"

definition toy_amine_fixed :: "(string, int \<times> int) MyMol" where
  "toy_amine_fixed = toy_amine\<lparr>rdkit_mol := MolObj ''CN(C)C'', can_smi := Str ''CN(C)C''\<rparr>"

text \<open>
  Ethanol with four conformers and no deduplication (cutoff below zero), the same after
  a deduplication with cutoff 1, ethanol with four minimized conformers deduplicated
  with cutoff 1, and the molecule of line 60, which cannot be embedded.
\<close>

definition toy_four :: "(string, int \<times> int) MyMol" where
  "toy_four = projr (add_conformers toy_engine 4 (- 1) False (toy_mol ''CCO'' []))"

definition toy_three :: "(string, int \<times> int) MyMol" where
  "toy_three = projr (eliminate_structurally_similar_conformers toy_engine 1 toy_four)"

definition toy_rigid :: "(string, int \<times> int) MyMol" where
  "toy_rigid = toy_mol ''O=c1cccc2[C@H]3C[NH2+]C[C@@H](C3)Cn21'' []"

definition toy_min :: "(string, int \<times> int) MyMol" where
  "toy_min = projr (add_conformers toy_engine 4 1 True (toy_mol ''CCO'' []))"

section \<open>Properties: the small engine\<close>

lemma toy_engine_sel:
  "SanitizeFlags_values toy_engine = [0, 1, 2, 4, 8, 268435455]"
  "SANITIZE_CLEANUP toy_engine = 1"
  "SANITIZE_ALL toy_engine = 268435455"
  "MolFromSmiles_nosanitize toy_engine = (\<lambda>s. if CHR ''?'' \<in> set s then None else Some s)"
  "SanitizeMol toy_engine = (\<lambda>ops g. if g = ''C(C)(C)(C)(C)C'' then None else Some g)"
  "MolFromSmiles toy_engine =
     (\<lambda>s. if CHR ''?'' \<in> set s \<or> s = ''C(C)(C)(C)(C)C'' then None else Some s)"
  "MolToSmiles toy_engine =
     (\<lambda>g. if g = ''CC(=O)NC1=CC(=C=[N+]([O-])O)C=C1O'' then None else Some g)"
  "AddHs toy_engine = (\<lambda>g. g)"
  "RemoveHs toy_engine = (\<lambda>g. g)"
  "HasSubstructMatch toy_engine = (\<lambda>g p. Some (p = ''[NX3+]'' \<and> substring ''[N+]'' g))"
  "ReplaceSubstructs toy_engine = (\<lambda>g p r. Some [g])"
  "RunReactants toy_engine =
     (\<lambda>rxn g. if rxn = ''[NX3+:1]>>[N:1]'' \<and> substring ''[N+]'' g
              then Some [[neutralise g]] else Some [])"
  "GetMolFrags toy_engine = (\<lambda>g. split_dots [] g)"
  "GetNumHeavyAtoms toy_engine =
     (\<lambda>g. length (filter (\<lambda>c. c \<in> set ''ABCDEFGIJKLMNOPQRSTUVWXYZ'') g))"
  "GetAtomicNums toy_engine =
     (\<lambda>g. map (\<lambda>c. if c = CHR ''H'' then 1 else 6)
             (filter (\<lambda>c. c \<in> set ''ABCDEFGHIJKLMNOPQRSTUVWXYZ'') g))"
  "EmbedMolecule_ETKDG toy_engine =
     (\<lambda>k g. if g = ''O=c1cccc2[C@H]3C[NH2+]C[C@@H](C3)Cn21'' then None
            else Some (toy_shape k, int k))"
  "EmbedMolecule_default toy_engine =
     (\<lambda>k g. if g = ''O=c1cccc2[C@H]3C[NH2+]C[C@@H](C3)Cn21'' then None
            else Some (toy_shape k, int k))"
  "UFF_CalcEnergy toy_engine = (\<lambda>g c. real_of_int (fst c))"
  "UFF_Minimize toy_engine = (\<lambda>g c. (fst c div 2, snd c))"
  "AlignMolConformers toy_engine = (\<lambda>g ids c0 c. (fst c, snd c0))"
  "GetConformerRMS toy_engine =
     (\<lambda>g c1 c2. real_of_int (\<bar>fst c1 - fst c2\<bar> + \<bar>snd c1 - snd c2\<bar>))"
  by (simp_all add: toy_engine_def)

lemma sanitize_ops_toy: "sanitize_ops toy_engine = 14"
  by (simp add: sanitize_ops_def toy_engine_sel)


section \<open>Properties: construction\<close>

lemma MyMol_init_Str:
  "MyMol_init eng (Str s) nm =
     Inr \<lparr> rdkit_mol =
             (case MolFromSmiles_nosanitize eng s of
                None \<Rightarrow> PyNone
              | Some g \<Rightarrow>
                  (case SanitizeMol eng (sanitize_ops eng) g of
                     None \<Rightarrow> PyNone
                   | Some g' \<Rightarrow> MolObj g')),
           can_smi = Str [], can_smi_noh = Str [],
           orig_smi = Str s, orig_smi_deslt = Str s, name = nm, conformers = [],
           nonaro_ring_atom_idx = NotComputed,
           chiral_cntrs_only_assigned = NotComputed,
           chiral_cntrs_include_unasignd = NotComputed,
           crzy_substruct = NotComputed, contnr_idx = NotComputed,
           frgs = NotComputed, genealogy = [] \<rparr>"
  by (simp add: MyMol_init_def makeMolFromSmiles_def split: option.splits)

lemma MyMol_init_MolObj:
  "MyMol_init eng (MolObj g) nm =
     Inr \<lparr> rdkit_mol = MolObj g,
           can_smi = (case MolToSmiles eng g of None \<Rightarrow> PyFalse | Some t \<Rightarrow> Str t),
           can_smi_noh = Str [],
           orig_smi = (case MolToSmiles eng g of None \<Rightarrow> MolObj g | Some t \<Rightarrow> Str t),
           orig_smi_deslt = (case MolToSmiles eng g of None \<Rightarrow> MolObj g | Some t \<Rightarrow> Str t),
           name = nm, conformers = [],
           nonaro_ring_atom_idx = NotComputed,
           chiral_cntrs_only_assigned = NotComputed,
           chiral_cntrs_include_unasignd = NotComputed,
           crzy_substruct = NotComputed, contnr_idx = NotComputed,
           frgs = NotComputed, genealogy = [] \<rparr>"
  by (simp add: MyMol_init_def makeMolFromSmiles_def MolToSmiles_py_def split: option.splits)


text \<open>
  Claim C8 says that a record built from a notation ends construction without a graph,
  which is parsed only on the first later request. The constructor's last statement is
  the call of \<^verbatim>\<open>makeMolFromSmiles\<close>, so the claim fails; what holds is: for every
  notation, construction returns a record whose graph attribute is no longer \<^verbatim>\<open>""\<close> but
  the sanitized molecule, or \<^verbatim>\<open>None\<close> when parsing or sanitizing fails, and a later
  call of \<^verbatim>\<open>makeMolFromSmiles\<close> returns that stored value and leaves the record as
  it is.
\<close>

theorem construction_parses:
  "\<exists>m. MyMol_init eng (Str s) nm = Inr m
     \<and> rdkit_mol m \<noteq> Str []
     \<and> rdkit_mol m =
         (case MolFromSmiles_nosanitize eng s of
            None \<Rightarrow> PyNone
          | Some g \<Rightarrow>
              (case SanitizeMol eng (sanitize_ops eng) g of
                 None \<Rightarrow> PyNone
               | Some g' \<Rightarrow> MolObj g'))
     \<and> makeMolFromSmiles eng m = Inr (rdkit_mol m, m)"
  by (simp add: MyMol_init_Str makeMolFromSmiles_def split: option.splits)


text \<open>
  Counterexample to claim C8 as stated: at the end of the construction from the
  notation of ethanol the graph is there.
\<close>

theorem construction_parses_cex:
  "map_sum id rdkit_mol (MyMol_init toy_engine (Str ''CCO'') ''ethanol'') = Inr (MolObj ''CCO'')"
  by (simp add: MyMol_init_Str sanitize_ops_toy) (simp add: toy_engine_def)


section \<open>Properties: hashing and equality\<close>

text \<open>
  Claim C1, amended: for two records whose canonical forms are strings, the records
  compare equal exactly when the hashes of the two strings are equal; so records with
  equal canonical forms compare equal, and records that compare equal have the same
  hash value. Records with different canonical forms compare equal when the hashes of
  the forms collide.
\<close>

theorem MyMol_eq_iff_hash_eq:
  assumes "fst (smiles eng self) = Str s" and "fst (smiles eng other) = Str t"
  shows "(MyMol_eq hash eng self other \<longleftrightarrow> hash (Str s) = hash (Str t))
       \<and> (s = t \<longrightarrow> MyMol_eq hash eng self other)
       \<and> (MyMol_eq hash eng self other \<longrightarrow>
            fst (MyMol_hash hash eng self) = fst (MyMol_hash hash eng other))"
  using assms
  by (cases "smiles eng self"; cases "smiles eng other") (simp add: MyMol_eq_def MyMol_hash_def)


theorem MyMol_eq_iff_hash_eq_witness:
  "fst (smiles toy_engine (toy_mol ''CCO'' [])) = Str ''CCO''
   \<and> fst (smiles toy_engine (toy_mol ''OCC'' [])) = Str ''OCC''
   \<and> MyMol_eq toy_hash toy_engine (toy_mol ''CCO'' []) (toy_mol ''OCC'' [])
   \<and> toy_hash (Str ''CCO'') = toy_hash (Str ''OCC'')"
proof -
  have a: "fst (smiles toy_engine (toy_mol ''CCO'' [])) = Str ''CCO''"
    by (simp add: toy_mol_def MyMol_init_Str sanitize_ops_toy toy_engine_sel smiles_def
        MolToSmiles_py_def)
  have b: "fst (smiles toy_engine (toy_mol ''OCC'' [])) = Str ''OCC''"
    by (simp add: toy_mol_def MyMol_init_Str sanitize_ops_toy toy_engine_sel smiles_def
        MolToSmiles_py_def)
  have h: "toy_hash (Str ''CCO'') = toy_hash (Str ''OCC'')"
    by (simp add: toy_hash_def)
  show ?thesis
    using MyMol_eq_iff_hash_eq [OF a b, of toy_hash] a b h by simp
qed

lemma smiles_cached: "can_smi a = Str s \<Longrightarrow> s \<noteq> [] \<Longrightarrow> smiles eng a = (Str s, a)"
  by (simp add: smiles_def)

lemma infinite_nonempty_strings: "infinite {s :: string. s \<noteq> []}"
proof -
  have "{s :: string. s \<noteq> []} = UNIV - {[]}" by auto
  then show ?thesis by (simp add: infinite_UNIV_listI)
qed


text \<open>
  Counterexample to claim C1 as stated: whatever the hash function into the 64-bit
  integers, two records with different canonical forms compare equal, since there are
  more strings than hash values.
\<close>

theorem MyMol_eq_collision:
  "\<not> (\<exists>(hash :: string py_hash) (eng :: (string, int \<times> int) engine).
        \<forall>self other s t.
          fst (smiles eng self) = Str s \<and> fst (smiles eng other) = Str t \<longrightarrow>
          (MyMol_eq hash eng self other \<longleftrightarrow> s = t))"
proof
  assume "\<exists>(hash :: string py_hash) (eng :: (string, int \<times> int) engine).
        \<forall>self other s t.
          fst (smiles eng self) = Str s \<and> fst (smiles eng other) = Str t \<longrightarrow>
          (MyMol_eq hash eng self other \<longleftrightarrow> s = t)"
  then obtain hash :: "string py_hash" and eng :: "(string, int \<times> int) engine" where
    H: "\<And>self other s t. fst (smiles eng self) = Str s \<Longrightarrow> fst (smiles eng other) = Str t \<Longrightarrow>
          (MyMol_eq hash eng self other \<longleftrightarrow> s = t)"
    by blast
  define mk :: "string \<Rightarrow> (string, int \<times> int) MyMol" where
    "mk s = (toy_mol [] [])\<lparr>can_smi := Str s\<rparr>" for s
  have sm: "smiles eng (mk s) = (Str s, mk s)" if "s \<noteq> []" for s
    using that by (simp add: smiles_cached mk_def)
  have "inj_on (\<lambda>s. hash (Str s)) {s. s \<noteq> []}"
  proof (rule inj_onI)
    fix s t :: string
    assume st: "s \<in> {s. s \<noteq> []}" "t \<in> {s. s \<noteq> []}" and eq: "hash (Str s) = hash (Str t)"
    have "MyMol_eq hash eng (mk s) (mk t)"
      using st eq by (simp add: MyMol_eq_def MyMol_hash_def sm)
    moreover have "MyMol_eq hash eng (mk s) (mk t) \<longleftrightarrow> s = t"
      using st by (intro H) (simp_all add: sm)
    ultimately show "s = t" by simp
  qed
  moreover have "finite ((\<lambda>s. hash (Str s)) ` {s. s \<noteq> []})"
    by (rule finite_subset [OF subset_UNIV]) simp
  ultimately have "finite {s :: string. s \<noteq> []}"
    by (rule finite_imageD [rotated])
  then show False using infinite_nonempty_strings by simp
qed


section \<open>Properties: minimization\<close>

text \<open>
  Claim C9: \<^verbatim>\<open>minimize\<close> on a conformer whose flag \<^verbatim>\<open>minimized\<close> is true returns it
  as it is, and a conformer that \<^verbatim>\<open>minimize\<close> returns has the flag set, so that a second
  call returns the same conformer, with the same energy and coordinates.
\<close>

theorem minimize_idempotent:
  "(minimized c = Some True \<longrightarrow> minimize eng c = Inr c)
   \<and> (minimize eng c = Inr c' \<longrightarrow>
        minimized c' = Some True \<and> minimize eng c' = Inr c'
        \<and> (\<forall>c''. minimize eng c' = Inr c'' \<longrightarrow> energy c'' = energy c' \<and> conf_mol c'' = conf_mol c'))"
  by (auto simp: minimize_def Let_def split: option.splits bool.splits list.splits prod.splits)


theorem minimize_idempotent_witness:
  "minimize toy_engine toy_conf
     = Inr (toy_conf\<lparr>conf_mol := Some (''CCO'', [(1, 0)]), energy := Some 1,
                     minimized := Some True\<rparr>)
   \<and> minimize toy_engine
       (toy_conf\<lparr>conf_mol := Some (''CCO'', [(1, 0)]), energy := Some 1, minimized := Some True\<rparr>)
     = Inr (toy_conf\<lparr>conf_mol := Some (''CCO'', [(1, 0)]), energy := Some 1,
                     minimized := Some True\<rparr>)"
proof -
  have m: "minimize toy_engine toy_conf
     = Inr (toy_conf\<lparr>conf_mol := Some (''CCO'', [(1, 0)]), energy := Some 1,
                     minimized := Some True\<rparr>)"
    by (simp add: minimize_def toy_conf_def toy_engine_sel)
  show ?thesis
    using minimize_idempotent [of toy_conf toy_engine
        "toy_conf\<lparr>conf_mol := Some (''CCO'', [(1, 0)]), energy := Some 1, minimized := Some True\<rparr>"] m
    by simp
qed

section \<open>Properties: fragments and the fragment selector\<close>

lemma substring_single: "substring [c] t \<longleftrightarrow> c \<in> set t"
  by (induction t) auto

lemma get_frags_no_separator:
  assumes "orig_smi m = Str s" and "CHR ''.'' \<notin> set s"
    and "frgs m = NotComputed \<or> frgs m = Computed SelfOnly"
  shows "get_frags_of_orig_smi eng m = Inr (SelfOnly, m\<lparr>frgs := Computed SelfOnly\<rparr>)"
  using assms by (auto simp: get_frags_of_orig_smi_def py_in_def substring_single)

lemma desalter_no_separator:
  assumes "orig_smi (mol_orig_frm_inp_smi contnr) = Str s" and "CHR ''.'' \<notin> set s"
    and "frgs (mol_orig_frm_inp_smi contnr) = NotComputed
         \<or> frgs (mol_orig_frm_inp_smi contnr) = Computed SelfOnly"
  shows "desalter eng contnr = Inr ((mol_orig_frm_inp_smi contnr)\<lparr>frgs := Computed SelfOnly\<rparr>)"
  using get_frags_no_separator [OF assms, of eng]
  by (simp add: desalter_def contnr_get_frags_of_orig_smi_def len_frags_def)


text \<open>
  Claim C5: for a notation without a dot, the record built from it has the notation as
  its original and as its desalted notation, \<^verbatim>\<open>get_frags_of_orig_smi\<close> returns the list
  of the record itself, and \<^verbatim>\<open>desalter\<close> returns the record of the container, in which
  nothing but the fragment cache has changed.
\<close>

theorem no_separator_pass_through:
  assumes "CHR ''.'' \<notin> set s"
  shows "\<exists>m. MyMol_init eng (Str s) nm = Inr m
     \<and> get_frags_of_orig_smi eng m = Inr (SelfOnly, m\<lparr>frgs := Computed SelfOnly\<rparr>)
     \<and> desalter eng \<lparr>contnr_orig_smi = s, contnr_name = nm, contnr_contnr_idx = idx,
                      mol_orig_frm_inp_smi = m\<rparr>
         = Inr (m\<lparr>frgs := Computed SelfOnly\<rparr>)
     \<and> orig_smi (m\<lparr>frgs := Computed SelfOnly\<rparr>) = Str s
     \<and> orig_smi_deslt (m\<lparr>frgs := Computed SelfOnly\<rparr>) = Str s"
  using assms
  by (simp add: MyMol_init_Str get_frags_no_separator desalter_no_separator)

theorem no_separator_pass_through_witness:
  "CHR ''.'' \<notin> set ''CCO''
   \<and> toy_desalt ''CCO'' ''ethanol'' = Inr ((toy_mol ''CCO'' ''ethanol'')\<lparr>frgs := Computed SelfOnly\<rparr>)
   \<and> orig_smi_deslt (projr (toy_desalt ''CCO'' ''ethanol'')) = Str ''CCO''"
  using no_separator_pass_through [of "''CCO''" toy_engine "''ethanol''" "Computed 0"]
  by (simp add: toy_desalt_def toy_container_def toy_mol_def MyMol_init_Str)

lemma dict_lookup:
  "num_heavy_atoms_to_frag eng fs k =
     (case filter (\<lambda>f. GetNumHeavyAtoms eng f = k) fs of [] \<Rightarrow> None | xs \<Rightarrow> Some (last xs))"
  unfolding num_heavy_atoms_to_frag_def
  by (induction fs rule: rev_induct) (auto split: list.splits)

lemma biggest_frag_is_largest:
  assumes "biggest_frag eng fs = Inr f"
  shows "f \<in> set fs
       \<and> (\<forall>f' \<in> set fs. GetNumHeavyAtoms eng f' \<le> GetNumHeavyAtoms eng f)
       \<and> f = last (filter (\<lambda>x. GetNumHeavyAtoms eng x = Max (GetNumHeavyAtoms eng ` set fs)) fs)"
proof -
  let ?h = "GetNumHeavyAtoms eng"
  let ?M = "Max (?h ` set fs)"
  from assms have ne: "fs \<noteq> []"
    by (auto simp: biggest_frag_def Let_def split: if_splits)
  from assms ne have look: "num_heavy_atoms_to_frag eng fs ?M = Some f"
    by (auto simp: biggest_frag_def Let_def split: if_splits option.splits)
  then have flt: "filter (\<lambda>x. ?h x = ?M) fs \<noteq> []" and f: "f = last (filter (\<lambda>x. ?h x = ?M) fs)"
    by (auto simp: dict_lookup split: list.splits)
  from flt f have "f \<in> set (filter (\<lambda>x. ?h x = ?M) fs)"
    using last_in_set by blast
  then have "f \<in> set fs" and "?h f = ?M" by auto
  moreover have "\<forall>f' \<in> set fs. ?h f' \<le> ?M" by simp
  ultimately show ?thesis using f by simp
qed

lemma desalter_new_mol_carries:
  "\<exists>m. desalter_new_mol eng contnr f = Inr m
      \<and> rdkit_mol m = MolObj f
      \<and> contnr_idx m = contnr_contnr_idx contnr
      \<and> name m = contnr_name contnr
      \<and> genealogy m = genealogy (mol_orig_frm_inp_smi contnr)"
  by (simp add: desalter_new_mol_def MyMol_init_MolObj)

lemma desalter_multi_fragment_raises:
  assumes "contnr_get_frags_of_orig_smi eng contnr = Inr (frags, contnr')"
    and "len_frags frags \<noteq> 1"
  shows "\<exists>e. desalter eng contnr = Inl e"
  using assms
  by (auto simp: desalter_def split: frags.splits sum.splits)


text \<open>
  Claim C4 on the code: for the salt of the spec's scenario, \<^verbatim>\<open>desalter\<close> raises
  \<^verbatim>\<open>AttributeError\<close> at line 92 and returns no record. The lemmas above say that the
  record built before that line is the one the claim describes.
\<close>

theorem desalter_salt_raises:
  "toy_desalt ''CCO.[Na+].[Cl-]'' ''salt'' = Inl AttributeError"
  apply (simp add: toy_desalt_def toy_container_def MyMol_init_Str sanitize_ops_toy)
  apply (simp add: toy_engine_sel desalter_def contnr_get_frags_of_orig_smi_def
      get_frags_of_orig_smi_def py_in_def len_frags_def biggest_frag_def dict_lookup
      desalter_new_mol_def MyMol_init_MolObj Let_def)
  done


section \<open>Properties: queries on an invalid graph\<close>

lemma invalid_graph_queries:
  assumes "rdkit_mol m = PyNone"
  shows "(nonaro_ring_atom_idx m = NotComputed \<longrightarrow> m_num_nonaro_rngs eng m = Inr ([], m))
       \<and> (chiral_cntrs_include_unasignd m = NotComputed \<longrightarrow> chiral_cntrs_w_unasignd eng m = Inr ([], m))
       \<and> (chiral_cntrs_only_assigned m = NotComputed \<longrightarrow> chiral_cntrs_only_asignd eng m = Inr ([], m))
       \<and> get_double_bonds_without_stereochemistry eng m = Inr []"
  using assms
  by (simp add: m_num_nonaro_rngs_def chiral_cntrs_w_unasignd_def chiral_cntrs_only_asignd_def
      get_double_bonds_without_stereochemistry_def)

lemma crzy_substruc_invalid_graph:
  assumes "rdkit_mol m = PyNone" and "crzy_substruct m = NotComputed"
  shows "crzy_substruc eng m = Inr (True, m\<lparr>crzy_substruct := Computed True\<rparr>)
       \<or> (\<exists>e. crzy_substruc eng m = Inl e)"
  using assms
  by (auto simp: crzy_substruc_def prohibited_substructures_def split: sum.splits bool.splits)


text \<open>
  Claim C7 on the code: for a notation that does not sanitize and that contains none of
  the prohibited patterns, the graph is \<^verbatim>\<open>None\<close> and \<^verbatim>\<open>crzy_substruc\<close> raises
  \<^verbatim>\<open>AttributeError\<close>; the four other queries return the empty list (lemma
  \<open>invalid_graph_queries\<close>).
\<close>

theorem crzy_substruc_invalid_raises:
  "rdkit_mol (toy_mol ''C(C)(C)(C)(C)C'' []) = PyNone
   \<and> crzy_substruc toy_engine (toy_mol ''C(C)(C)(C)(C)C'' []) = Inl AttributeError"
  apply (simp add: toy_mol_def MyMol_init_Str sanitize_ops_toy)
  apply (simp add: toy_engine_sel crzy_substruc_def prohibited_substructures_def py_in_def)
  done


section \<open>Properties: the deduplication passes\<close>




lemma align_to_me_info:
  "align_to_me eng c1 c2 = Inr c2' \<Longrightarrow> conf_info c2' = conf_info c2"
  by (auto simp: align_to_me_def conformer_set_def conformer_get_def conf_info_def Let_def
      split: option.splits sum.splits prod.splits list.splits)




lemma remove_nones_map_Some [simp]: "remove_nones (map Some xs) = xs"
  by (induction xs) (simp_all add: remove_nones_def)

lemma remove_nones_simps [simp]:
  "remove_nones [] = []"
  "remove_nones (None # xs) = remove_nones xs"
  "remove_nones (Some x # xs) = x # remove_nones xs"
  by (simp_all add: remove_nones_def)

lemma info_kept_refl: "info_kept x x"
  by (cases x) (auto simp: info_kept_def)

lemma info_kept_trans: "info_kept x'' x' \<Longrightarrow> info_kept x' x \<Longrightarrow> info_kept x'' x"
  by (auto simp: info_kept_def)

lemma list_all2_info_kept_trans:
  "list_all2 info_kept xs ys \<Longrightarrow> list_all2 info_kept ys zs \<Longrightarrow> list_all2 info_kept xs zs"
  using list_all2_trans [of info_kept info_kept info_kept xs ys zs] info_kept_trans by blast

lemma list_all2_info_kept_refl: "list_all2 info_kept xs xs"
  by (simp add: list_all2_refl info_kept_refl)

lemma elim_inner_info:
  "elim_inner eng cutoff i1 is cs = Inr cs' \<Longrightarrow> list_all2 info_kept cs' cs"
proof (induction "is" arbitrary: cs)
  case Nil
  then show ?case by (simp add: list_all2_info_kept_refl)
next
  case (Cons i2 "is")
  from Cons.prems have rng: "i2 < length cs" "i1 < length cs"
    by (auto split: if_splits)
  show ?case
  proof (cases "cs ! i2")
    case None
    with Cons.prems rng have "elim_inner eng cutoff i1 is cs = Inr cs'" by simp
    then show ?thesis by (rule Cons.IH)
  next
    case (Some c2)
    with Cons.prems rng obtain c1 c2' rmsd where
      ar: "align_and_rmsd eng c1 c2 = Inr (c2', rmsd)" and
      run: "elim_inner eng cutoff i1 is (cs[i2 := (if rmsd \<le> cutoff then None else Some c2')])
              = Inr cs'"
      by (auto split: sum.splits option.splits)
    let ?v = "if rmsd \<le> cutoff then None else Some c2'"
    from ar have "align_to_me eng c1 c2 = Inr c2'"
      by (auto simp: align_and_rmsd_def split: sum.splits)
    then have "info_kept ?v (cs ! i2)"
      using Some align_to_me_info by (auto simp: info_kept_def)
    with list_all2_info_kept_refl have "list_all2 info_kept (cs[i2 := ?v]) (cs[i2 := cs ! i2])"
      by (rule list_all2_update_cong)
    then have "list_all2 info_kept (cs[i2 := ?v]) cs" by simp
    with Cons.IH [OF run] show ?thesis by (rule list_all2_info_kept_trans)
  qed
qed

lemma elim_outer_info:
  "elim_outer eng cutoff is cs = Inr cs' \<Longrightarrow> list_all2 info_kept cs' cs"
proof (induction "is" arbitrary: cs)
  case Nil
  then show ?case by (simp add: list_all2_info_kept_refl)
next
  case (Cons i1 "is")
  from Cons.prems have rng: "i1 < length cs" by (auto split: if_splits)
  show ?case
  proof (cases "cs ! i1")
    case None
    with Cons.prems rng have "elim_outer eng cutoff is cs = Inr cs'" by simp
    then show ?thesis by (rule Cons.IH)
  next
    case (Some a)
    with Cons.prems rng obtain cs1 where
      inner: "elim_inner eng cutoff i1 [i1 + 1..<length cs] cs = Inr cs1" and
      run: "elim_outer eng cutoff is cs1 = Inr cs'"
      by (auto split: sum.splits)
    from Cons.IH [OF run] elim_inner_info [OF inner] show ?thesis
      by (rule list_all2_info_kept_trans)
  qed
qed

lemma info_kept_subseq:
  "list_all2 info_kept cs' cs \<Longrightarrow>
     subseq (map conf_info (remove_nones cs')) (map conf_info (remove_nones cs))"
proof (induction cs' arbitrary: cs)
  case Nil
  then show ?case by simp
next
  case (Cons x' xs')
  then obtain x xs where cs: "cs = x # xs" "info_kept x' x" "list_all2 info_kept xs' xs"
    by (auto simp: list_all2_Cons1)
  from Cons.IH [OF cs(3)] have IH:
    "subseq (map conf_info (remove_nones xs')) (map conf_info (remove_nones xs))" .
  show ?case
  proof (cases x')
    case None
    with IH cs(1) show ?thesis by (cases x) auto
  next
    case (Some b')
    with cs(2) obtain b where "x = Some b" "conf_info b' = conf_info b"
      by (auto simp: info_kept_def)
    with IH cs(1) Some show ?thesis by simp
  qed
qed

lemma eliminate_info:
  assumes "eliminate_structurally_similar_conformers eng cutoff self = Inr self'"
  shows "subseq (map conf_info (conformers self')) (map conf_info (conformers self))"
    and "self' = self\<lparr>conformers := conformers self'\<rparr>"
proof -
  from assms obtain cs' where
    outer: "elim_outer eng cutoff [0..<length (conformers self) - 1] (map Some (conformers self))
              = Inr cs'" and
    res: "self' = self\<lparr>conformers := remove_nones cs'\<rparr>"
    by (auto simp: eliminate_structurally_similar_conformers_def split: sum.splits)
  from info_kept_subseq [OF elim_outer_info [OF outer]] res
  show "subseq (map conf_info (conformers self')) (map conf_info (conformers self))" by simp
  show "self' = self\<lparr>conformers := conformers self'\<rparr>" using res by simp
qed




section \<open>Properties: conformer set management\<close>

lemma usable_info: "conf_info c' = conf_info c \<Longrightarrow> usable c' = usable c"
  by (cases "conf_mol c"; cases "conf_mol c'") (auto simp: conf_info_def usable_def)

lemma subseq_member: "subseq xs ys \<Longrightarrow> x \<in> set xs \<Longrightarrow> x \<in> set ys"
  by (auto elim: list_emb_set)

lemma MyConformer_init_conformers:
  "MyConformer_init eng mol conformer k = Inr (c, mol') \<Longrightarrow>
     conformers mol' = conformers mol \<and> rdkit_mol mol' = rdkit_mol mol
     \<and> (conf_mol c \<noteq> None \<longrightarrow> usable c)"
  by (auto simp: MyConformer_init_def smiles_def usable_def Let_def
      split: pyval.splits option.splits list.splits prod.splits if_splits)

lemma MyConformer_init_fails:
  assumes "rdkit_mol mol = MolObj g"
    and "EmbedMolecule_ETKDG eng k g = None" and "EmbedMolecule_default eng k g = None"
  shows "MyConformer_init eng mol None k =
     Inr (\<lparr>conf_mol = None, conf_smiles = fst (smiles eng mol), minimized = None,
           energy = None, ids_hvy_atms = None\<rparr>, snd (smiles eng mol))"
  using assms by (simp add: MyConformer_init_def Let_def split: prod.splits)

lemma new_confs_usable:
  "new_confs eng k n self = Inr self' \<Longrightarrow> \<forall>c \<in> set (conformers self). usable c \<Longrightarrow>
     \<forall>c \<in> set (conformers self'). usable c"
proof (induction n arbitrary: k self)
  case 0
  then show ?case by simp
next
  case (Suc n)
  from Suc.prems(1) obtain c mol' where
    init: "MyConformer_init eng self None k = Inr (c, mol')" and
    run: "new_confs eng (Suc k) n
            (if conf_mol c \<noteq> None then mol'\<lparr>conformers := conformers mol' @ [c]\<rparr> else mol')
          = Inr self'"
    by (auto split: sum.splits)
  from MyConformer_init_conformers [OF init] Suc.prems(2)
  have "\<forall>x \<in> set (conformers
          (if conf_mol c \<noteq> None then mol'\<lparr>conformers := conformers mol' @ [c]\<rparr> else mol')). usable x"
    by auto
  from Suc.IH [OF run this] show ?case .
qed

lemma minimize_usable: "minimize eng c = Inr c' \<Longrightarrow> usable c \<Longrightarrow> usable c'"
  by (auto simp: minimize_def usable_def Let_def
      split: option.splits bool.splits list.splits prod.splits)

lemma minimize_all_usable:
  "minimize_all eng cs = Inr cs' \<Longrightarrow> \<forall>c \<in> set cs. usable c \<Longrightarrow> \<forall>c \<in> set cs'. usable c"
proof (induction cs arbitrary: cs')
  case Nil
  then show ?case by simp
next
  case (Cons c cs)
  from Cons.prems(1) obtain c' cs1 where
    m: "minimize eng c = Inr c'" "minimize_all eng cs = Inr cs1" "cs' = c' # cs1"
    by (auto split: sum.splits)
  with Cons.IH [OF m(2)] Cons.prems(2) minimize_usable [OF m(1)] show ?case by simp
qed

lemma sort_by_energy_result:
  "sort_by_energy cs = Inr cs' \<Longrightarrow>
     set cs' = set cs \<and> sorted (map (\<lambda>c. the (energy c)) cs') \<and> (\<forall>c \<in> set cs. energy c \<noteq> None)"
  by (auto simp: sort_by_energy_def sorted_sort_key split: if_splits)

lemma subseq_sorted: "subseq xs ys \<Longrightarrow> sorted ys \<Longrightarrow> sorted xs"
  by (auto simp: subseq_conv_nths sorted_nths)

lemma add_conformers_steps:
  assumes "add_conformers eng num cutoff mf self = Inr self'"
  obtains self1 confs2 confs3 where
    "new_confs eng 0 (nat (max 0 (num - int (length (conformers self))))) self = Inr self1"
    "(if mf then minimize_all eng (conformers self1) else Inr (conformers self1)) = Inr confs2"
    "sort_by_energy confs2 = Inr confs3"
    "eliminate_structurally_similar_conformers eng cutoff (self1\<lparr>conformers := confs3\<rparr>) = Inr self'"
  using assms by (auto simp: add_conformers_def Let_def split: sum.splits)

lemma eliminate_usable:
  assumes "eliminate_structurally_similar_conformers eng cutoff self = Inr self'"
    and "\<forall>c \<in> set (conformers self). usable c"
  shows "\<forall>c \<in> set (conformers self'). usable c"
proof
  fix c assume "c \<in> set (conformers self')"
  then have "conf_info c \<in> set (map conf_info (conformers self'))" by simp
  with eliminate_info(1) [OF assms(1)] have "conf_info c \<in> set (map conf_info (conformers self))"
    by (rule subseq_member)
  then obtain c0 where "c0 \<in> set (conformers self)" "conf_info c = conf_info c0" by auto
  with assms(2) usable_info show "usable c" by blast
qed


lemma toy_runs:
  "\<not> isl (add_conformers toy_engine 4 (- 1) False (toy_mol ''CCO'' []))"
  "\<not> isl (eliminate_structurally_similar_conformers toy_engine 1 toy_four)"
  "\<not> isl (add_conformers toy_engine 4 1 True (toy_mol ''CCO'' []))"
  by code_simp+

lemma toy_energies:
  "map energy (conformers toy_four) = [Some 0, Some 2, Some 3, Some 4]"
  "map energy (conformers toy_three) = [Some 0, Some 2, Some 4]"
  "pairwise_rmsd toy_engine (conformers toy_three ! 0) (conformers toy_three ! 1) = Inr 2"
  "map energy (conformers toy_min) = [Some 0, Some 2]"
  "conformers (projr (add_conformers toy_engine 3 1 True toy_rigid)) = []"
  by code_simp+

lemma toy_new_confs:
  "\<not> isl (new_confs toy_engine 0 4 (toy_mol ''CCO'' []))"
  "length (conformers (projr (new_confs toy_engine 0 4 (toy_mol ''CCO'' [])))) = 4"
  by code_simp+

text \<open>
  Claim C3: whenever \<^verbatim>\<open>add_conformers\<close> returns, for any target count, cutoff and
  minimize flag, every conformer of the list has an energy and the list is sorted by
  non-decreasing energy. Energies are real numbers here.
\<close>

theorem add_conformers_sorted:
  assumes "add_conformers eng num rmsd_cutoff minimize_flag self = Inr self'"
  shows "sorted (map (\<lambda>c. the (energy c)) (conformers self'))
       \<and> (\<forall>c \<in> set (conformers self'). energy c \<noteq> None)"
proof -
  from assms obtain self1 confs2 confs3 where
    srt: "sort_by_energy confs2 = Inr confs3" and
    el: "eliminate_structurally_similar_conformers eng rmsd_cutoff (self1\<lparr>conformers := confs3\<rparr>)
           = Inr self'"
    by (rule add_conformers_steps)
  from sort_by_energy_result [OF srt] have
    s3: "sorted (map (\<lambda>c. the (energy c)) confs3)" and e3: "\<forall>c \<in> set confs3. energy c \<noteq> None"
    by auto
  from eliminate_info(1) [OF el] have sub: "subseq (map conf_info (conformers self')) (map conf_info confs3)"
    by simp
  have en: "energy = (\<lambda>c. fst (snd (snd (snd (conf_info c)))))"
    by (rule ext) (simp add: conf_info_def)
  have "subseq (map (\<lambda>i. fst (snd (snd (snd i)))) (map conf_info (conformers self')))
               (map (\<lambda>i. fst (snd (snd (snd i)))) (map conf_info confs3))"
    using sub by (rule subseq_map)
  then have sube: "subseq (map energy (conformers self')) (map energy confs3)"
    by (simp add: conf_info_def comp_def)
  then have "subseq (map the (map energy (conformers self'))) (map the (map energy confs3))"
    by (rule subseq_map)
  then have "subseq (map (\<lambda>c. the (energy c)) (conformers self')) (map (\<lambda>c. the (energy c)) confs3)"
    by (simp add: comp_def)
  then have "sorted (map (\<lambda>c. the (energy c)) (conformers self'))"
    using s3 by (rule subseq_sorted)
  moreover have "\<forall>c \<in> set (conformers self'). energy c \<noteq> None"
  proof
    fix c assume "c \<in> set (conformers self')"
    then have "energy c \<in> set (map energy (conformers self'))" by simp
    with sube have "energy c \<in> set (map energy confs3)"
      by (rule subseq_member)
    with e3 show "energy c \<noteq> None" by auto
  qed
  ultimately show ?thesis by simp
qed

theorem add_conformers_sorted_witness:
  "map energy (conformers toy_min) = [Some 0, Some 2]
   \<and> sorted (map (\<lambda>c. the (energy c)) (conformers toy_min))"
proof -
  have ad: "add_conformers toy_engine 4 1 True (toy_mol ''CCO'' []) = Inr toy_min"
    using toy_runs(3) by (simp add: toy_min_def)
  from add_conformers_sorted [OF ad] toy_energies(4) show ?thesis by simp
qed

lemma smiles_conformers: "conformers (snd (smiles eng self)) = conformers self"
  by (auto simp: smiles_def split: option.splits)

lemma smiles_rdkit_mol_kept: "rdkit_mol (snd (smiles eng self)) = rdkit_mol self"
  by (auto simp: smiles_def split: option.splits)

lemma new_confs_appends:
  "new_confs eng k n self = Inr self' \<Longrightarrow>
     \<exists>added. conformers self' = conformers self @ added \<and> length added \<le> n
        \<and> (\<forall>c \<in> set added. usable c)"
proof (induction n arbitrary: k self)
  case 0
  then show ?case by simp
next
  case (Suc n)
  from Suc.prems obtain c mol' where
    init: "MyConformer_init eng self None k = Inr (c, mol')" and
    run: "new_confs eng (Suc k) n
            (if conf_mol c \<noteq> None then mol'\<lparr>conformers := conformers mol' @ [c]\<rparr> else mol')
          = Inr self'"
    by (auto split: sum.splits)
  from MyConformer_init_conformers [OF init] have
    i: "conformers mol' = conformers self" "conf_mol c \<noteq> None \<longrightarrow> usable c" by simp_all
  from Suc.IH [OF run] obtain added where
    ad: "conformers self'
           = conformers (if conf_mol c \<noteq> None then mol'\<lparr>conformers := conformers mol' @ [c]\<rparr>
                         else mol') @ added"
      "length added \<le> n" "\<forall>x \<in> set added. usable x"
    by blast
  show ?case
  proof (cases "conf_mol c \<noteq> None")
    case True
    with ad i have "conformers self' = conformers self @ (c # added)"
      "length (c # added) \<le> Suc n" "\<forall>x \<in> set (c # added). usable x"
      by simp_all
    then show ?thesis by blast
  next
    case False
    with ad i have "conformers self' = conformers self @ added" "length added \<le> Suc n"
      by simp_all
    with ad(3) show ?thesis by blast
  qed
qed

lemma new_confs_all_fail:
  assumes "\<forall>k. EmbedMolecule_ETKDG eng k g = None \<and> EmbedMolecule_default eng k g = None"
  shows "rdkit_mol self = MolObj g \<Longrightarrow>
     \<exists>self'. new_confs eng k n self = Inr self' \<and> conformers self' = conformers self"
proof (induction n arbitrary: k self)
  case 0
  then show ?case by simp
next
  case (Suc n)
  from assms have "EmbedMolecule_ETKDG eng k g = None" "EmbedMolecule_default eng k g = None"
    by simp_all
  from MyConformer_init_fails [OF Suc.prems this] have
    init: "MyConformer_init eng self None k =
       Inr (\<lparr>conf_mol = None, conf_smiles = fst (smiles eng self), minimized = None,
             energy = None, ids_hvy_atms = None\<rparr>, snd (smiles eng self))" .
  have "rdkit_mol (snd (smiles eng self)) = MolObj g"
    using Suc.prems by (simp add: smiles_rdkit_mol_kept)
  from Suc.IH [OF this, of "Suc k"] obtain self' where
    "new_confs eng (Suc k) n (snd (smiles eng self)) = Inr self'"
    "conformers self' = conformers (snd (smiles eng self))"
    by blast
  with init show ?case by (simp add: smiles_conformers)
qed

lemma add_conformers_all_fail:
  assumes "\<forall>k. EmbedMolecule_ETKDG eng k g = None \<and> EmbedMolecule_default eng k g = None"
    and "rdkit_mol self = MolObj g" and "conformers self = []"
  shows "\<exists>self'. add_conformers eng num rmsd_cutoff minimize_flag self = Inr self'
           \<and> conformers self' = []"
proof -
  from new_confs_all_fail [OF assms(1,2)] assms(3) obtain self1 where
    "new_confs eng 0 (nat (max 0 (num - int (length (conformers self))))) self = Inr self1"
    "conformers self1 = []"
    by metis
  then show ?thesis
    by (simp add: add_conformers_def sort_by_energy_def
        eliminate_structurally_similar_conformers_def)
qed

text \<open>
  Claim C10. When both embeddings of a construction fail, the new conformer has the
  marker for its \<^verbatim>\<open>mol\<close> and no energy, minimized flag or heavy-atom list. The first
  loop of \<^verbatim>\<open>add_conformers\<close> only appends to the list, and what it appends has all its
  attributes; so when no embedding of the molecule succeeds, \<^verbatim>\<open>add_conformers\<close> on a
  molecule without conformers returns, for any count, cutoff and flag, and the list is
  still empty. And when the conformers of a molecule have all their attributes, so
  have those of the molecule that \<^verbatim>\<open>add_conformers\<close> returns.
\<close>

theorem stored_conformers_usable:
  "(rdkit_mol mol = MolObj g \<and> EmbedMolecule_ETKDG eng k g = None
      \<and> EmbedMolecule_default eng k g = None \<longrightarrow>
      (\<exists>mol'. MyConformer_init eng mol None k =
         Inr (\<lparr>conf_mol = None, conf_smiles = fst (smiles eng mol), minimized = None,
               energy = None, ids_hvy_atms = None\<rparr>, mol')))
   \<and> (new_confs eng k n mol = Inr mol1 \<longrightarrow>
        (\<exists>added. conformers mol1 = conformers mol @ added \<and> length added \<le> n
           \<and> (\<forall>c \<in> set added. usable c)))
   \<and> ((\<forall>j. EmbedMolecule_ETKDG eng j g = None \<and> EmbedMolecule_default eng j g = None)
        \<and> rdkit_mol mol = MolObj g \<and> conformers mol = [] \<longrightarrow>
        (\<exists>mol2. add_conformers eng num rmsd_cutoff minimize_flag mol = Inr mol2
           \<and> conformers mol2 = []))
   \<and> ((\<forall>c \<in> set (conformers self). usable c)
        \<and> add_conformers eng num rmsd_cutoff minimize_flag self = Inr self' \<longrightarrow>
      (\<forall>c \<in> set (conformers self'). usable c))"
proof (intro conjI impI)
  assume "rdkit_mol mol = MolObj g \<and> EmbedMolecule_ETKDG eng k g = None
      \<and> EmbedMolecule_default eng k g = None"
  then show "\<exists>mol'. MyConformer_init eng mol None k =
         Inr (\<lparr>conf_mol = None, conf_smiles = fst (smiles eng mol), minimized = None,
               energy = None, ids_hvy_atms = None\<rparr>, mol')"
    by (simp add: MyConformer_init_fails)
next
  assume "new_confs eng k n mol = Inr mol1"
  then show "\<exists>added. conformers mol1 = conformers mol @ added \<and> length added \<le> n
           \<and> (\<forall>c \<in> set added. usable c)"
    by (rule new_confs_appends)
next
  assume "(\<forall>j. EmbedMolecule_ETKDG eng j g = None \<and> EmbedMolecule_default eng j g = None)
        \<and> rdkit_mol mol = MolObj g \<and> conformers mol = []"
  then show "\<exists>mol2. add_conformers eng num rmsd_cutoff minimize_flag mol = Inr mol2
           \<and> conformers mol2 = []"
    using add_conformers_all_fail [of eng g mol num rmsd_cutoff minimize_flag] by blast
next
  assume a: "(\<forall>c \<in> set (conformers self). usable c)
        \<and> add_conformers eng num rmsd_cutoff minimize_flag self = Inr self'"
  then obtain self1 confs2 confs3 where
    nc: "new_confs eng 0 (nat (max 0 (num - int (length (conformers self))))) self = Inr self1" and
    mn: "(if minimize_flag then minimize_all eng (conformers self1) else Inr (conformers self1))
           = Inr confs2" and
    srt: "sort_by_energy confs2 = Inr confs3" and
    el: "eliminate_structurally_similar_conformers eng rmsd_cutoff (self1\<lparr>conformers := confs3\<rparr>)
           = Inr self'"
    by (auto elim: add_conformers_steps)
  from new_confs_usable [OF nc] a have u1: "\<forall>c \<in> set (conformers self1). usable c" by simp
  have u2: "\<forall>c \<in> set confs2. usable c"
  proof (cases minimize_flag)
    case True
    with mn have "minimize_all eng (conformers self1) = Inr confs2" by simp
    from minimize_all_usable [OF this u1] show ?thesis .
  next
    case False
    with mn u1 show ?thesis by simp
  qed
  from sort_by_energy_result [OF srt] u2 have u3: "\<forall>c \<in> set confs3. usable c" by simp
  from eliminate_usable [OF el] u3 show "\<forall>c \<in> set (conformers self'). usable c" by simp
qed

theorem stored_conformers_usable_witness:
  "(\<exists>mol'. MyConformer_init toy_engine toy_rigid None 0 =
       Inr (\<lparr>conf_mol = None, conf_smiles = fst (smiles toy_engine toy_rigid),
             minimized = None, energy = None, ids_hvy_atms = None\<rparr>, mol'))
   \<and> length (conformers (projr (new_confs toy_engine 0 4 (toy_mol ''CCO'' [])))) = 4
   \<and> list_all usable (conformers (projr (new_confs toy_engine 0 4 (toy_mol ''CCO'' []))))
   \<and> (\<exists>mol2. add_conformers toy_engine 3 1 True toy_rigid = Inr mol2 \<and> conformers mol2 = [])
   \<and> list_all usable (conformers toy_min)
   \<and> map energy (conformers toy_min) = [Some 0, Some 2]"
proof -
  let ?g = "''O=c1cccc2[C@H]3C[NH2+]C[C@@H](C3)Cn21''"
  let ?x = "projr (new_confs toy_engine 0 4 (toy_mol ''CCO'' []))"
  have r: "rdkit_mol toy_rigid = MolObj ?g" "conformers toy_rigid = []"
    by (simp_all add: toy_rigid_def toy_mol_def MyMol_init_Str sanitize_ops_toy toy_engine_sel)
  have e: "\<forall>j. EmbedMolecule_ETKDG toy_engine j ?g = None
             \<and> EmbedMolecule_default toy_engine j ?g = None"
    by (simp add: toy_engine_sel)
  then have e0: "EmbedMolecule_ETKDG toy_engine 0 ?g = None"
    "EmbedMolecule_default toy_engine 0 ?g = None"
    by simp_all
  have u: "\<forall>c \<in> set (conformers (toy_mol ''CCO'' [])). usable c"
    and nil: "conformers (toy_mol ''CCO'' []) = []"
    by (simp_all add: toy_mol_def MyMol_init_Str)
  have nc: "new_confs toy_engine 0 4 (toy_mol ''CCO'' []) = Inr ?x"
    using toy_new_confs(1) by simp
  have ad: "add_conformers toy_engine 4 1 True (toy_mol ''CCO'' []) = Inr toy_min"
    using toy_runs(3) by (simp add: toy_min_def)
  note thm1 = stored_conformers_usable [of toy_rigid ?g toy_engine 0 0 toy_rigid 3 1 True
      "toy_mol ''CCO'' []" toy_min]
  note thm2 = stored_conformers_usable [of "toy_mol ''CCO'' []" ?g toy_engine 0 4 ?x 4 1 True
      "toy_mol ''CCO'' []" toy_min]
  from thm1 r e0 have a: "\<exists>mol'. MyConformer_init toy_engine toy_rigid None 0 =
       Inr (\<lparr>conf_mol = None, conf_smiles = fst (smiles toy_engine toy_rigid),
             minimized = None, energy = None, ids_hvy_atms = None\<rparr>, mol')"
    by blast
  from thm1 r e have b: "\<exists>mol2. add_conformers toy_engine 3 1 True toy_rigid = Inr mol2
      \<and> conformers mol2 = []"
    by blast
  from thm2 nc have "\<exists>added. conformers ?x = conformers (toy_mol ''CCO'' []) @ added
      \<and> length added \<le> 4 \<and> (\<forall>c \<in> set added. usable c)"
    by blast
  with nil have n: "\<forall>c \<in> set (conformers ?x). usable c" by auto
  from thm2 u ad have c: "\<forall>c \<in> set (conformers toy_min). usable c"
    by blast
  from a b c n show ?thesis using toy_energies(4) toy_new_confs(2) by (simp add: list_all_iff)
qed




section \<open>Properties: the repair loop\<close>

lemma smiles_idem:
  "smiles eng (snd (smiles eng self)) = smiles eng self"
  by (auto simp: smiles_def split: option.splits)

lemma smiles_rdkit_mol: "rdkit_mol (snd (smiles eng self)) = rdkit_mol self"
  by (auto simp: smiles_def split: option.splits)

lemma smiles_consistent:
  "cache_consistent eng self \<Longrightarrow> cache_consistent eng (snd (smiles eng self))"
  by (auto simp: smiles_def cache_consistent_def split: option.splits)

lemma smiles_value:
  "cache_consistent eng self \<Longrightarrow> fst (smiles eng self) = Str s \<Longrightarrow>
     MolToSmiles_py eng (rdkit_mol self) = Some s"
  by (auto simp: smiles_def cache_consistent_def split: option.splits if_splits)

lemma fix_passes_loop:
  "fix_passes n eng mol self = Some r \<Longrightarrow> fix_loop eng mol self = Some r"
proof (induction n arbitrary: mol self)
  case 0
  then show ?case by simp
next
  case (Suc n)
  show ?case
  proof (cases "fix_pass eng mol self")
    case (Inl e)
    with Suc.prems show ?thesis by (subst fix_loop.simps) simp
  next
    case (Inr t)
    obtain again mol' self' where t: "t = (again, mol', self')" by (cases t)
    show ?thesis
    proof (cases again)
      case True
      with Suc.prems Inr t have "fix_passes n eng mol' self' = Some r" by simp
      from Suc.IH [OF this] Inr t True show ?thesis by (subst fix_loop.simps) simp
    next
      case False
      with Suc.prems Inr t show ?thesis by (subst fix_loop.simps) simp
    qed
  qed
qed

lemma fix_invalid_graph:
  assumes "rdkit_mol self = PyNone"
  shows "fix_common_errors eng self = Some (Inr (snd (smiles eng self)))"
proof -
  have "fix_pass eng PyNone (snd (smiles eng self)) = Inr (False, PyNone, snd (smiles eng self))"
    by (simp add: fix_pass_def smiles_idem split: prod.splits)
  then have "fix_loop eng PyNone (snd (smiles eng self)) = Some (Inr (snd (smiles eng self)))"
    by (subst fix_loop.simps) simp
  with assms show ?thesis
    by (cases "smiles eng self") (simp add: fix_common_errors_def)
qed

lemma rewrite_pass_Str:
  "rewrite_pass eng v self_mol mol = Inr mol' \<Longrightarrow> \<exists>s. v = Str s"
  by (auto simp: rewrite_pass_def replace_carbocation_def py_in_def
      split: sum.splits pyval.splits)

lemma fix_pass_cases:
  assumes "fix_pass eng mol self = Inr (again, mol', self')"
  shows "(mol = PyNone \<and> \<not> again \<and> mol' = mol \<and> self' = snd (smiles eng self))
       \<or> (mol \<noteq> PyNone \<and> (\<exists>s. fst (smiles eng self) = Str s
            \<and> rewrite_pass eng (Str s) (rdkit_mol self) mol = Inr mol'
            \<and> self' = snd (smiles eng ((snd (smiles eng self))\<lparr>rdkit_mol := mol', can_smi := Str []\<rparr>))
            \<and> again = (Str s \<noteq> fst (smiles eng ((snd (smiles eng self))\<lparr>rdkit_mol := mol', can_smi := Str []\<rparr>)))))"
proof (cases "mol = PyNone")
  case True
  with assms show ?thesis by (auto simp: fix_pass_def split: prod.splits)
next
  case False
  obtain orig self1 where sm: "smiles eng self = (orig, self1)" by (cases "smiles eng self")
  with assms False obtain m where rw: "rewrite_pass eng orig (rdkit_mol self1) mol = Inr m"
    by (auto simp: fix_pass_def split: sum.splits)
  from rewrite_pass_Str [OF rw] obtain s where s: "orig = Str s" by blast
  have r1: "rdkit_mol self1 = rdkit_mol self"
    using sm smiles_rdkit_mol [of eng self] by simp
  from assms False sm rw s r1 show ?thesis
    by (auto simp: fix_pass_def Let_def split: prod.splits)
qed

lemma fresh_smiles:
  "smiles eng (m\<lparr>rdkit_mol := mol', can_smi := Str []\<rparr>) =
     (case MolToSmiles_py eng mol' of
        None \<Rightarrow> (PyNone, m\<lparr>rdkit_mol := mol', can_smi := PyNone\<rparr>)
      | Some t \<Rightarrow> (Str t, m\<lparr>rdkit_mol := mol', can_smi := Str t\<rparr>))"
  by (simp add: smiles_def split: option.splits)

lemma fix_pass_again:
  assumes "fix_pass eng mol self = Inr (True, mol', self')"
  shows "mol' = rdkit_mol self' \<and> cache_consistent eng self'"
  using fix_pass_cases [OF assms]
  by (auto simp: fresh_smiles cache_consistent_def split: option.splits)

lemma fix_pass_stable:
  assumes st: "stable_rewrite eng" and cc: "cache_consistent eng self"
    and mol: "mol = rdkit_mol self"
    and pass: "fix_pass eng mol self = Inr (False, mol', self')"
  shows "fix_common_errors eng self' = Some (Inr self')"
proof (cases "mol = PyNone")
  case True
  with fix_pass_cases [OF pass] have s': "self' = snd (smiles eng self)" by simp
  with True mol have "rdkit_mol self' = PyNone" by (simp add: smiles_rdkit_mol)
  from fix_invalid_graph [OF this, of eng] show ?thesis
    using s' by (simp add: smiles_idem)
next
  case False
  let ?self1 = "snd (smiles eng self)"
  from fix_pass_cases [OF pass] False obtain s where
    o: "fst (smiles eng self) = Str s" and
    rw: "rewrite_pass eng (Str s) (rdkit_mol self) mol = Inr mol'" and
    s': "self' = snd (smiles eng (?self1\<lparr>rdkit_mol := mol', can_smi := Str []\<rparr>))" and
    eq: "Str s = fst (smiles eng (?self1\<lparr>rdkit_mol := mol', can_smi := Str []\<rparr>))"
    by auto
  from eq have ms': "MolToSmiles_py eng mol' = Some s"
    by (auto simp: fresh_smiles split: option.splits)
  from smiles_value [OF cc o] have ms: "MolToSmiles_py eng (rdkit_mol self) = Some s" .
  then obtain g where g: "rdkit_mol self = MolObj g" "MolToSmiles eng g = Some s"
    by (auto simp: MolToSmiles_py_def split: pyval.splits)
  from st g rw mol ms' have m': "mol' = MolObj g"
    unfolding stable_rewrite_def by auto
  have self': "self' = ?self1\<lparr>rdkit_mol := MolObj g, can_smi := Str s\<rparr>"
    using s' ms' m' by (simp add: fresh_smiles)
  have sm': "smiles eng self' = (Str s, self')"
    using ms' m' by (auto simp: self' smiles_def)
  have r': "rdkit_mol self' = MolObj g" by (simp add: self')
  have again: "self'\<lparr>rdkit_mol := MolObj g, can_smi := Str []\<rparr>
                 = ?self1\<lparr>rdkit_mol := MolObj g, can_smi := Str []\<rparr>"
    by (simp add: self')
  have "fix_pass eng (MolObj g) self' = Inr (False, MolObj g, self')"
    using rw g(1) mol m' ms' sm' r'
    by (simp add: fix_pass_def again fresh_smiles) (simp add: self')
  then have "fix_loop eng (MolObj g) self' = Some (Inr self')"
    by (subst fix_loop.simps) simp
  then show ?thesis
    using sm' r' by (simp add: fix_common_errors_def)
qed

lemma fix_loop_fixed:
  assumes "fix_loop eng mol self = Some r"
  shows "fixed_after eng mol self r"
proof (rule fix_loop.raw_induct [where P = fixed_after, OF _ assms])
  fix loop :: "('a, 'b) engine \<Rightarrow> 'a pyval \<Rightarrow> ('a, 'b) MyMol \<Rightarrow> (error + ('a, 'b) MyMol) option"
  fix eng mol self r
  assume IH: "\<And>e m s y. loop e m s = Some y \<Longrightarrow> fixed_after e m s y"
    and body: "(case fix_pass eng mol self of Inl e \<Rightarrow> Some (Inl e)
      | Inr (again, mol', self') \<Rightarrow>
          if again then loop eng mol' self' else Some (Inr self')) = Some r"
  show "fixed_after eng mol self r"
    unfolding fixed_after_def
  proof (intro impI allI)
    fix self'
    assume st: "stable_rewrite eng" and mol: "mol = rdkit_mol self"
      and cc: "cache_consistent eng self" and r: "r = Inr self'"
    from body r obtain again mol' s1 where
      pass: "fix_pass eng mol self = Inr (again, mol', s1)" and
      rest: "(if again then loop eng mol' s1 else Some (Inr s1)) = Some (Inr self')"
      by (auto split: sum.splits)
    show "fix_common_errors eng self' = Some (Inr self')"
    proof (cases again)
      case True
      with rest have "loop eng mol' s1 = Some (Inr self')" by simp
      from IH [OF this] have fa: "fixed_after eng mol' s1 (Inr self')" .
      from pass True have "fix_pass eng mol self = Inr (True, mol', s1)" by simp
      from fix_pass_again [OF this] have "mol' = rdkit_mol s1" "cache_consistent eng s1"
        by simp_all
      with fa st show ?thesis by (simp add: fixed_after_def)
    next
      case False
      with rest have "s1 = self'" by simp
      with pass False have "fix_pass eng mol self = Inr (False, mol', self')" by simp
      from fix_pass_stable [OF st cc mol this] show ?thesis .
    qed
  qed
qed

text \<open>
  An exception of the engine's search or rewrite ends the call: whatever the pass, it
  is the result of \<^verbatim>\<open>fix_common_errors\<close>.
\<close>

lemma run_rxn_search_raises:
  "HasSubstructMatch eng g0 smrts = None \<Longrightarrow>
     run_rxn eng smrts rxn (MolObj g0) mol = Inl RuntimeError"
  by (simp add: run_rxn_def)

lemma run_rxn_rewrite_raises:
  "HasSubstructMatch eng g0 smrts = Some True \<Longrightarrow> RunReactants eng rxn g = None \<Longrightarrow>
     run_rxn eng smrts rxn (MolObj g0) (MolObj g) = Inl RuntimeError"
  by (simp add: run_rxn_def)

lemma fix_loop_pass_raises:
  "fix_pass eng mol self = Inl e \<Longrightarrow> fix_loop eng mol self = Some (Inl e)"
  by (subst fix_loop.simps) simp

text \<open>
  What the loop does where every pass finds a canonical form. The call returns exactly
  when, for some \<open>n\<close>, the loop cut off after \<open>n\<close> passes has returned, and then with the
  same result; it returns after a first pass that leaves the canonical form unchanged;
  and for an engine whose rewrites leave a molecule alone when they leave its canonical
  form alone, and a record whose cached canonical form is the one of its graph, a second
  call on the record of a call that has returned changes nothing.
\<close>

lemma fix_loop_returns_iff:
  "fix_loop eng mol self = Some r \<longleftrightarrow> (\<exists>n. fix_passes n eng mol self = Some r)"
proof
  assume "\<exists>n. fix_passes n eng mol self = Some r"
  then show "fix_loop eng mol self = Some r" using fix_passes_loop by blast
next
  assume run: "fix_loop eng mol self = Some r"
  show "\<exists>n. fix_passes n eng mol self = Some r"
  proof (rule fix_loop.raw_induct
      [where P = "\<lambda>e m s y. \<exists>n. fix_passes n e m s = Some y", OF _ run])
    fix loop :: "('a, 'b) engine \<Rightarrow> 'a pyval \<Rightarrow> ('a, 'b) MyMol \<Rightarrow> (error + ('a, 'b) MyMol) option"
    fix eng mol self r
    assume IH: "\<And>e m s y. loop e m s = Some y \<Longrightarrow> \<exists>n. fix_passes n e m s = Some y"
      and body: "(case fix_pass eng mol self of Inl e \<Rightarrow> Some (Inl e)
        | Inr (again, mol', self') \<Rightarrow>
            if again then loop eng mol' self' else Some (Inr self')) = Some r"
    show "\<exists>n. fix_passes n eng mol self = Some r"
    proof (cases "fix_pass eng mol self")
      case (Inl e)
      with body have "fix_passes (Suc 0) eng mol self = Some r" by simp
      then show ?thesis by blast
    next
      case (Inr t)
      obtain again mol' self' where t: "t = (again, mol', self')" by (cases t)
      show ?thesis
      proof (cases again)
        case True
        with body Inr t have "loop eng mol' self' = Some r" by simp
        from IH [OF this] obtain n where "fix_passes n eng mol' self' = Some r" by blast
        with Inr t True have "fix_passes (Suc n) eng mol self = Some r" by simp
        then show ?thesis by blast
      next
        case False
        with body Inr t have "fix_passes (Suc 0) eng mol self = Some r" by simp
        then show ?thesis by blast
      qed
    qed
  qed
qed

lemma fix_returns_after_unchanged_pass:
  assumes "fix_pass eng (rdkit_mol self) (snd (smiles eng self)) = Inr (False, mol', self')"
  shows "fix_common_errors eng self = Some (Inr self')"
proof -
  from assms have "fix_loop eng (rdkit_mol self) (snd (smiles eng self)) = Some (Inr self')"
    by (subst fix_loop.simps) simp
  then show ?thesis by (cases "smiles eng self") (simp add: fix_common_errors_def)
qed

lemma fix_common_errors_second_run:
  assumes "stable_rewrite eng" and "cache_consistent eng self"
    and "fix_common_errors eng self = Some (Inr self')"
  shows "fix_common_errors eng self' = Some (Inr self')"
proof -
  from assms(3) have "fix_loop eng (rdkit_mol self) (snd (smiles eng self)) = Some (Inr self')"
    by (cases "smiles eng self") (simp add: fix_common_errors_def)
  from fix_loop_fixed [OF this] assms(1,2) smiles_consistent [of eng self]
  show ?thesis by (simp add: fixed_after_def smiles_rdkit_mol)
qed

lemma toy_stable_rewrite: "stable_rewrite toy_engine"
  by (auto simp: stable_rewrite_def MolToSmiles_py_def toy_engine_sel
      split: pyval.splits if_splits)

lemma toy_amine_run:
  "fix_passes 2 toy_engine (rdkit_mol toy_amine) (snd (smiles toy_engine toy_amine))
     = Some (Inr toy_amine_fixed)"
  by code_simp

lemma fix_common_errors_amine:
  "fix_common_errors toy_engine toy_amine = Some (Inr toy_amine_fixed)
   \<and> fix_common_errors toy_engine toy_amine_fixed = Some (Inr toy_amine_fixed)
   \<and> can_smi toy_amine_fixed = Str ''CN(C)C''"
proof -
  have cc: "cache_consistent toy_engine toy_amine"
    by (simp add: cache_consistent_def toy_amine_def toy_mol_def MyMol_init_Str)
  from fix_passes_loop [OF toy_amine_run]
  have r1: "fix_common_errors toy_engine toy_amine = Some (Inr toy_amine_fixed)"
    by (cases "smiles toy_engine toy_amine") (simp add: fix_common_errors_def)
  from fix_common_errors_second_run [OF toy_stable_rewrite cc r1]
  show ?thesis using r1 by (simp add: toy_amine_fixed_def)
qed

text \<open>
  Claim C6 on the code: a record whose graph is valid but has no canonical form, be it
  built from the graph (\<^verbatim>\<open>can_smi\<close> is \<^verbatim>\<open>False\<close>, line 208) or from its notation
  (\<^verbatim>\<open>can_smi\<close> becomes \<^verbatim>\<open>None\<close>, line 373). The guard of line 537 tests only the
  graph, line 540 tests \<^verbatim>\<open>"[C+]"\<close> in a value that is no string, and
  \<^verbatim>\<open>fix_common_errors\<close> raises \<^verbatim>\<open>TypeError\<close>: it neither returns the failure signal
  nor runs a pass to its end.
\<close>

theorem fix_common_errors_raises:
  "fix_common_errors toy_engine (projr (MyMol_init toy_engine (MolObj toy_beast) []))
     = Some (Inl TypeError)
   \<and> fix_common_errors toy_engine (toy_mol toy_beast []) = Some (Inl TypeError)"
proof -
  let ?m = "projr (MyMol_init toy_engine (MolObj toy_beast) [])"
  have c: "can_smi ?m = PyFalse" "rdkit_mol ?m = MolObj toy_beast"
    by (simp_all add: MyMol_init_MolObj toy_engine_sel toy_beast_def)
  then have sm: "smiles toy_engine ?m = (PyFalse, ?m)" by (simp add: smiles_def)
  have "fix_pass toy_engine (MolObj toy_beast) ?m = Inl TypeError"
    by (simp add: fix_pass_def sm rewrite_pass_def replace_carbocation_def py_in_def)
  then have "fix_loop toy_engine (MolObj toy_beast) ?m = Some (Inl TypeError)"
    by (subst fix_loop.simps) simp
  then have one: "fix_common_errors toy_engine ?m = Some (Inl TypeError)"
    by (simp add: fix_common_errors_def sm c)
  let ?s = "toy_mol toy_beast []"
  let ?t = "?s\<lparr>can_smi := PyNone\<rparr>"
  have d: "can_smi ?s = Str []" "rdkit_mol ?s = MolObj toy_beast"
    by (simp_all add: toy_mol_def MyMol_init_Str sanitize_ops_toy toy_engine_sel toy_beast_def)
  then have sm1: "smiles toy_engine ?s = (PyNone, ?t)"
    by (simp add: smiles_def MolToSmiles_py_def toy_engine_sel toy_beast_def)
  have sm2: "smiles toy_engine ?t = (PyNone, ?t)" by (simp add: smiles_def)
  have "fix_pass toy_engine (MolObj toy_beast) ?t = Inl TypeError"
    by (simp add: fix_pass_def sm2 rewrite_pass_def replace_carbocation_def py_in_def)
  then have "fix_loop toy_engine (MolObj toy_beast) ?t = Some (Inl TypeError)"
    by (subst fix_loop.simps) simp
  then have two: "fix_common_errors toy_engine ?s = Some (Inl TypeError)"
    by (simp add: fix_common_errors_def sm1 d)
  from one two show ?thesis by simp
qed

end
